theory Spec2Isabelle
  imports Complex_Main "HOL-Library.Sublist"
begin

chapter \<open>Data validation utilities for the HTML, CSS and JavaScript datasets\<close>

text \<open>
  A shallow embedding of the three validators of the repository and of the two
  data-consistency scripts, followed by the properties of the specification that
  were settled on it.

  Conventions of the embedding.
  \<^item> A JavaScript string is a \<open>string\<close>: the list of its code units. Isabelle
    characters are bytes, so the strings of the model are the strings over
    U+0000 .. U+00FF; \<open>length\<close> is the \<open>.length\<close> of the source.
  \<^item> A plain object that came out of \<open>JSON.parse\<close> and is used as a dictionary is
    an association list with distinct keys, in the order in which \<open>Object.keys\<close>
    enumerates it. A \<open>Map\<close> is an association list in insertion order.
  \<^item> A field that the source tests for presence is an \<open>option\<close>; \<open>None\<close> is
    \<open>undefined\<close>.
  \<^item> An exception is a value of the type \<open>exn\<close>; a function that can throw
    returns a sum or a dedicated outcome type.
  \<^item> \<open>console.log\<close> output is not modelled.
\<close>

section \<open>Strings\<close>

text \<open>
  \<open>String.prototype.toLowerCase\<close> on the code units below U+0100: the ASCII
  capitals and the Latin-1 capitals (U+00C0 .. U+00DE without the multiplication
  sign U+00D7) move up by 32, every other unit stays.
\<close>

definition lowerChar :: "char \<Rightarrow> char" where
  "lowerChar c =
     (let n = (of_char c :: nat)
      in if (65 \<le> n \<and> n \<le> 90) \<or> (192 \<le> n \<and> n \<le> 222 \<and> n \<noteq> 215)
         then char_of (n + 32) else c)"

definition toLowerCase :: "string \<Rightarrow> string" where
  "toLowerCase s = map lowerChar s"

text \<open>\<open>s.startsWith(p)\<close>.\<close>

definition startsWith :: "string \<Rightarrow> string \<Rightarrow> bool" where
  "startsWith s p = (take (length p) s = p)"

text \<open>
  \<open>s.charAt(i)\<close>: the one-unit string at \<open>i\<close>, the empty string out of range.
  The function and the Levenshtein routines that use it are stated for strings
  over any alphabet, so that they cover all 16-bit code units.
\<close>

definition charAt :: "'a list \<Rightarrow> nat \<Rightarrow> 'a list" where
  "charAt s i = (if i < length s then [s ! i] else [])"

text \<open>\<open>xs.join(sep)\<close> on an array of strings.\<close>

fun join :: "string \<Rightarrow> string list \<Rightarrow> string" where
  "join sep [] = []"
| "join sep [x] = x"
| "join sep (x # y # ys) = x @ sep @ join sep (y # ys)"

text \<open>
  What the scripts take from the JavaScript runtime. \<open>Date.parse\<close> accepts more
  than the ISO format, and which strings it accepts is left to the
  implementation: \<open>rt_dateParses\<close> is true when the string parses to a number.
  A number inside a template literal is printed by the runtime's conversion of
  numbers to strings, which writes an integer in decimal digits when its
  magnitude is below \<open>10^21\<close> and in exponent notation beyond:
  \<open>rt_numberToString\<close> is that conversion on the integers. Both are
  parameters of the validators.
\<close>

record runtime =
  rt_dateParses :: "string \<Rightarrow> bool"
  rt_numberToString :: "int \<Rightarrow> string"

text \<open>A number that may be \<open>undefined\<close>, which prints as the word.\<close>

definition showNumberOpt :: "runtime \<Rightarrow> int option \<Rightarrow> string" where
  "showNumberOpt rt v = (case v of None \<Rightarrow> ''undefined'' | Some i \<Rightarrow> rt_numberToString rt i)"

text \<open>
  Decimal printing of an integer. It agrees with the runtime on the integers of
  magnitude below \<open>10^21\<close> and is used for the runtime of the examples only.
\<close>

definition digitChar :: "nat \<Rightarrow> char" where
  "digitChar d = char_of (48 + d)"

fun decimalNat :: "nat \<Rightarrow> string" where
  "decimalNat n = (if n < 10 then [digitChar n] else decimalNat (n div 10) @ [digitChar (n mod 10)])"

declare decimalNat.simps [simp del]

definition decimalInt :: "int \<Rightarrow> string" where
  "decimalInt i = (if i < 0 then CHR ''-'' # decimalNat (nat (- i)) else decimalNat (nat i))"

definition showStrOpt :: "string option \<Rightarrow> string" where
  "showStrOpt v = (case v of None \<Rightarrow> ''undefined'' | Some s \<Rightarrow> s)"

text \<open>Truthiness of an optional string: \<open>undefined\<close> and the empty string are falsy.\<close>

definition truthyStr :: "string option \<Rightarrow> bool" where
  "truthyStr v = (case v of None \<Rightarrow> False | Some s \<Rightarrow> s \<noteq> [])"

section \<open>Plain objects as dictionaries\<close>

text \<open>
  \<open>obj[key]\<close> on a plain object finds an own property, or else a property that
  every plain object inherits from \<open>Object.prototype\<close>; all of the inherited
  values are functions or objects, hence truthy. Only a name that is neither own
  nor inherited reads as \<open>undefined\<close>.
\<close>

type_synonym 'a dict = "(string \<times> 'a) list"

datatype 'a lookup = Absent | Inherited | Own 'a

definition objectPrototypeNames :: "string list" where
  "objectPrototypeNames =
     [''constructor'', ''__defineGetter__'', ''__defineSetter__'', ''hasOwnProperty'',
      ''__lookupGetter__'', ''__lookupSetter__'', ''isPrototypeOf'',
      ''propertyIsEnumerable'', ''toString'', ''valueOf'', ''__proto__'',
      ''toLocaleString'']"

definition getProp :: "'a dict \<Rightarrow> string \<Rightarrow> 'a lookup" where
  "getProp obj key =
     (case map_of obj key of
        Some v \<Rightarrow> Own v
      | None \<Rightarrow> if key \<in> set objectPrototypeNames then Inherited else Absent)"

text \<open>Truthiness of a looked-up property whose own values are objects.\<close>

fun truthy :: "'a lookup \<Rightarrow> bool" where
  "truthy Absent = False"
| "truthy Inherited = True"
| "truthy (Own v) = True"

text \<open>\<open>Object.keys(obj)\<close> and \<open>Object.values(obj)\<close>.\<close>

definition keys :: "'a dict \<Rightarrow> string list" where
  "keys obj = map fst obj"

definition vals :: "'a dict \<Rightarrow> 'a list" where
  "vals obj = map snd obj"

text \<open>\<open>Object.keys(x || {})\<close> for an optional dictionary.\<close>

definition keysOr :: "'a dict option \<Rightarrow> string list" where
  "keysOr d = (case d of None \<Rightarrow> [] | Some obj \<Rightarrow> keys obj)"

text \<open>The exceptions of the model.\<close>

datatype exn = NotInitialized string | TypeError

section \<open>The Levenshtein routines\<close>

text \<open>
  Both routines fill a two-dimensional array of numbers. A cell is \<open>Some n\<close> for
  the number \<open>n\<close> and \<open>None\<close> for \<open>undefined\<close> or \<open>NaN\<close> (what a read past
  the end of a row, and arithmetic on it, would give). \<open>arr[i] = v\<close> replaces an
  element, appends when \<open>i\<close> is the length, and leaves holes when \<open>i\<close> is beyond.
\<close>

type_synonym cell = "nat option"

definition arrSet :: "'a \<Rightarrow> 'a list \<Rightarrow> nat \<Rightarrow> 'a \<Rightarrow> 'a list" where
  "arrSet hole xs i v =
     (if i < length xs then xs[i := v] else xs @ replicate (i - length xs) hole @ [v])"

definition getCell :: "cell list list \<Rightarrow> nat \<Rightarrow> nat \<Rightarrow> cell" where
  "getCell m i j = (if i < length m \<and> j < length (m ! i) then m ! i ! j else None)"

definition setCell :: "cell list list \<Rightarrow> nat \<Rightarrow> nat \<Rightarrow> cell \<Rightarrow> cell list list" where
  "setCell m i j v = (if i < length m then m[i := arrSet None (m ! i) j v] else m)"

definition plus1 :: "cell \<Rightarrow> cell" where
  "plus1 c = map_option Suc c"

text \<open>\<open>Math.min(a, b, c)\<close>: \<open>NaN\<close> when an argument is.\<close>

definition min3 :: "cell \<Rightarrow> cell \<Rightarrow> cell \<Rightarrow> cell" where
  "min3 a b c =
     (case (a, b, c) of
        (Some x, Some y, Some z) \<Rightarrow> Some (min x (min y z))
      | _ \<Rightarrow> None)"

text \<open>\<open>HTMLValidator._levenshteinDistance\<close> (HTML/src/HTMLValidator.js).\<close>

definition html_levenshteinStep ::
  "'a list \<Rightarrow> 'a list \<Rightarrow> nat \<Rightarrow> nat \<Rightarrow> cell list list \<Rightarrow> cell list list" where
  "html_levenshteinStep str1 str2 i j matrix =
     (if charAt str2 (i - 1) = charAt str1 (j - 1)
      then setCell matrix i j (getCell matrix (i - 1) (j - 1))
      else setCell matrix i j
             (min3 (plus1 (getCell matrix (i - 1) (j - 1)))
                   (plus1 (getCell matrix i (j - 1)))
                   (plus1 (getCell matrix (i - 1) j))))"

definition html_levenshteinDistance :: "'a list \<Rightarrow> 'a list \<Rightarrow> cell" where
  "html_levenshteinDistance str1 str2 =
     (let matrix = fold (\<lambda>i m. arrSet [] m i [Some i]) [0 ..< Suc (length str2)] [];
          matrix = fold (\<lambda>j m. setCell m 0 j (Some j)) [0 ..< Suc (length str1)] matrix;
          matrix = fold (\<lambda>i m. fold (html_levenshteinStep str1 str2 i)
                                  [1 ..< Suc (length str1)] m)
                        [1 ..< Suc (length str2)] matrix
      in getCell matrix (length str2) (length str1))"

text \<open>\<open>CSSValidator.levenshteinDistance\<close> (CSS/src/CSSValidator-new.js).\<close>

definition css_levenshteinStep ::
  "'a list \<Rightarrow> 'a list \<Rightarrow> nat \<Rightarrow> nat \<Rightarrow> cell list list \<Rightarrow> cell list list" where
  "css_levenshteinStep str1 str2 i j matrix =
     (if charAt str2 (i - 1) = charAt str1 (j - 1)
      then setCell matrix i j (getCell matrix (i - 1) (j - 1))
      else setCell matrix i j
             (min3 (plus1 (getCell matrix (i - 1) (j - 1)))
                   (plus1 (getCell matrix i (j - 1)))
                   (plus1 (getCell matrix (i - 1) j))))"

definition css_levenshteinDistance :: "'a list \<Rightarrow> 'a list \<Rightarrow> cell" where
  "css_levenshteinDistance str1 str2 =
     (let matrix = fold (\<lambda>i m. arrSet [] m i [Some i]) [0 ..< Suc (length str2)] [];
          matrix = fold (\<lambda>j m. setCell m 0 j (Some j)) [0 ..< Suc (length str1)] matrix;
          matrix = fold (\<lambda>i m. fold (css_levenshteinStep str1 str2 i)
                                  [1 ..< Suc (length str1)] m)
                        [1 ..< Suc (length str2)] matrix
      in getCell matrix (length str2) (length str1))"

text \<open>
  The classic edit distance, following the words of the specification: the least
  number of insertions, deletions and substitutions, each of cost 1, that turn
  one string into the other. \<open>edits xs ys n\<close> says that some script of cost \<open>n\<close>
  turns \<open>xs\<close> into \<open>ys\<close>; the distance is the least such cost.
\<close>

inductive edits :: "'a list \<Rightarrow> 'a list \<Rightarrow> nat \<Rightarrow> bool" where
  edits_Nil: "edits [] [] 0"
| edits_Keep: "edits xs ys n \<Longrightarrow> edits (x # xs) (x # ys) n"
| edits_Subst: "edits xs ys n \<Longrightarrow> edits (x # xs) (y # ys) (Suc n)"
| edits_Delete: "edits xs ys n \<Longrightarrow> edits (x # xs) ys (Suc n)"
| edits_Insert: "edits xs ys n \<Longrightarrow> edits xs (y # ys) (Suc n)"

definition classic_edit_distance :: "'a list \<Rightarrow> 'a list \<Rightarrow> nat" where
  "classic_edit_distance xs ys = (LEAST n. edits xs ys n)"

text \<open>The same distance by the textbook recurrence, which is executable.\<close>

fun editDistanceRec :: "'a list \<Rightarrow> 'a list \<Rightarrow> nat" where
  "editDistanceRec [] ys = length ys"
| "editDistanceRec (x # xs) [] = Suc (length xs)"
| "editDistanceRec (x # xs) (y # ys) =
     min (editDistanceRec xs ys + (if x = y then 0 else 1))
         (min (editDistanceRec xs (y # ys) + 1) (editDistanceRec (x # xs) ys + 1))"

text \<open>
  The array of the routines while it is being filled: rows above \<open>i\<close> are
  complete, row \<open>i\<close> is filled up to column \<open>k\<close>, and the rows below still
  hold their first cell only. Used to state the invariant of the two loops.
\<close>

definition levTable :: "'a list \<Rightarrow> 'a list \<Rightarrow> nat \<Rightarrow> nat \<Rightarrow> cell list list" where
  "levTable str1 str2 i k =
     map (\<lambda>r. map (\<lambda>c. Some (editDistanceRec (take r str2) (take c str1)))
                 [0 ..< Suc (if r < i then length str1 else if r = i then k else 0)])
         [0 ..< Suc (length str2)]"

section \<open>The HTML validator (HTML/src/HTMLValidator.js)\<close>

record htmlAttribute =
  attr_name :: string
  attr_description :: string
  attr_required :: bool

record htmlElement =
  el_name :: string
  el_category :: string
  el_description :: string
  el_attributes :: "htmlAttribute list option"

record htmlData =
  hd_elements :: "htmlElement list option"

text \<open>
  The two \<open>Map\<close>s of the validator. \<open>Map.set\<close> keeps the position of a key that
  is already there and appends a new one.
\<close>

record HTMLValidator =
  hv_elements :: "(string \<times> htmlElement) list"
  hv_attributes :: "(string \<times> string list) list"

fun mapSet :: "('k \<times> 'v) list \<Rightarrow> 'k \<Rightarrow> 'v \<Rightarrow> ('k \<times> 'v) list" where
  "mapSet [] k v = [(k, v)]"
| "mapSet ((k', v') # m) k v = (if k' = k then (k, v) # m else (k', v') # mapSet m k v)"

definition mapGet :: "('k \<times> 'v) list \<Rightarrow> 'k \<Rightarrow> 'v option" where
  "mapGet m k = map_of m k"

definition mapHas :: "('k \<times> 'v) list \<Rightarrow> 'k \<Rightarrow> bool" where
  "mapHas m k = (map_of m k \<noteq> None)"

definition mapKeys :: "('k \<times> 'v) list \<Rightarrow> 'k list" where
  "mapKeys m = map fst m"

text \<open>The body of the inner \<open>forEach\<close> of \<open>_initializeData\<close>, for one attribute.\<close>

definition html_indexAttribute :: "htmlElement \<Rightarrow> htmlAttribute \<Rightarrow> HTMLValidator \<Rightarrow> HTMLValidator" where
  "html_indexAttribute element attr v =
     (let attrs = (if \<not> mapHas (hv_attributes v) (attr_name attr)
                   then mapSet (hv_attributes v) (attr_name attr) []
                   else hv_attributes v);
          users = (case mapGet attrs (attr_name attr) of None \<Rightarrow> [] | Some us \<Rightarrow> us)
      in v\<lparr>hv_attributes := mapSet attrs (attr_name attr) (users @ [el_name element])\<rparr>)"

definition html_indexElement :: "htmlElement \<Rightarrow> HTMLValidator \<Rightarrow> HTMLValidator" where
  "html_indexElement element v =
     (let v1 = v\<lparr>hv_elements := mapSet (hv_elements v) (el_name element) element\<rparr>
      in case el_attributes element of
           None \<Rightarrow> v1
         | Some attrs \<Rightarrow> fold (html_indexAttribute element) attrs v1)"

definition html_initializeData :: "htmlData option \<Rightarrow> HTMLValidator \<Rightarrow> HTMLValidator" where
  "html_initializeData htmlData v =
     (case htmlData of
        None \<Rightarrow> v
      | Some d \<Rightarrow> (case hd_elements d of
                     None \<Rightarrow> v
                   | Some els \<Rightarrow> fold html_indexElement els v))"

text \<open>The constructor.\<close>

definition newHTMLValidator :: "htmlData option \<Rightarrow> HTMLValidator" where
  "newHTMLValidator htmlData =
     html_initializeData htmlData \<lparr>hv_elements = [], hv_attributes = []\<rparr>"

text \<open>
  \<open>_calculateSimilarity\<close>. JavaScript numbers are doubles; the model computes
  the quotient as an exact rational, and \<open>None\<close> stands for \<open>NaN\<close>. The
  comparisons of the source against 0.6 and 0.5 come out the same on doubles
  and on rationals for all strings shorter than \<open>2^50\<close> units, because a
  quotient of two such lengths that differs from the threshold differs from it
  by more than the rounding error.
\<close>

definition html_calculateSimilarity :: "string \<Rightarrow> string \<Rightarrow> rat option" where
  "html_calculateSimilarity str1 str2 =
     (let longer = (if length str1 > length str2 then str1 else str2);
          shorter = (if length str1 > length str2 then str2 else str1)
      in if length longer = 0 then Some 1
         else (case html_levenshteinDistance longer shorter of
                 None \<Rightarrow> None
               | Some editDistance \<Rightarrow>
                   Some ((of_nat (length longer) - of_nat editDistance) / of_nat (length longer))))"

text \<open>\<open>x > t\<close> for a number that may be \<open>NaN\<close>.\<close>

definition numGreater :: "rat option \<Rightarrow> rat \<Rightarrow> bool" where
  "numGreater x t = (case x of None \<Rightarrow> False | Some q \<Rightarrow> q > t)"

definition html_getSuggestions :: "HTMLValidator \<Rightarrow> string \<Rightarrow> string list" where
  "html_getSuggestions v elementName =
     take 5 (filter (\<lambda>name. numGreater (html_calculateSimilarity elementName name) (6 / 10))
                    (mapKeys (hv_elements v)))"

definition html_getAttributeSuggestions :: "htmlElement \<Rightarrow> string \<Rightarrow> string list" where
  "html_getAttributeSuggestions element attributeName =
     (case el_attributes element of
        None \<Rightarrow> []
      | Some attrs \<Rightarrow>
          take 5 (filter (\<lambda>name. numGreater (html_calculateSimilarity attributeName name) (6 / 10))
                         (map attr_name attrs)))"

definition globalAttributes :: "string list" where
  "globalAttributes =
     [''accesskey'', ''class'', ''contenteditable'', ''dir'', ''draggable'',
      ''hidden'', ''id'', ''lang'', ''spellcheck'', ''style'', ''tabindex'',
      ''title'', ''translate'', ''data-*'', ''aria-*'']"

definition html_isGlobalAttribute :: "string \<Rightarrow> bool" where
  "html_isGlobalAttribute attributeName =
     (attributeName \<in> set globalAttributes \<or>
      startsWith attributeName ''data-'' \<or>
      startsWith attributeName ''aria-'')"

record elementResult =
  er_isValid :: bool
  er_element :: "htmlElement option"
  er_suggestions :: "string list"

definition html_validateElement :: "HTMLValidator \<Rightarrow> string \<Rightarrow> elementResult" where
  "html_validateElement v elementName =
     (let normalizedName = toLowerCase elementName;
          element = mapGet (hv_elements v) normalizedName
      in \<lparr>er_isValid = (element \<noteq> None),
          er_element = element,
          er_suggestions = (if element \<noteq> None then [] else html_getSuggestions v normalizedName)\<rparr>)"

text \<open>
  The two shapes of the result of \<open>validateAttribute\<close>: the first has only
  \<open>isValid\<close>, \<open>reason\<close> and \<open>suggestions\<close>, the second has no \<open>reason\<close>.
\<close>

record attributeResult =
  ar_isValid :: bool
  ar_reason :: "string option"
  ar_isGlobal :: "bool option"
  ar_attribute :: "htmlAttribute option"
  ar_suggestions :: "string list"

definition html_validateAttribute :: "HTMLValidator \<Rightarrow> string \<Rightarrow> string \<Rightarrow> attributeResult" where
  "html_validateAttribute v elementName attributeName =
     (let normalizedElement = toLowerCase elementName;
          normalizedAttribute = toLowerCase attributeName
      in case mapGet (hv_elements v) normalizedElement of
           None \<Rightarrow>
             \<lparr>ar_isValid = False,
              ar_reason = Some (''Unknown element: '' @ elementName),
              ar_isGlobal = None,
              ar_attribute = None,
              ar_suggestions = html_getSuggestions v normalizedElement\<rparr>
         | Some element \<Rightarrow>
             (let hasAttribute =
                    (case el_attributes element of
                       None \<Rightarrow> False
                     | Some attrs \<Rightarrow> list_ex (\<lambda>attr. attr_name attr = normalizedAttribute) attrs);
                  isGlobalAttribute = html_isGlobalAttribute normalizedAttribute
              in \<lparr>ar_isValid = (hasAttribute \<or> isGlobalAttribute),
                  ar_reason = None,
                  ar_isGlobal = Some isGlobalAttribute,
                  ar_attribute =
                    (if hasAttribute
                     then (case el_attributes element of
                             None \<Rightarrow> None
                           | Some attrs \<Rightarrow> find (\<lambda>attr. attr_name attr = normalizedAttribute) attrs)
                     else None),
                  ar_suggestions =
                    (if hasAttribute \<or> isGlobalAttribute then []
                     else html_getAttributeSuggestions element normalizedAttribute)\<rparr>))"

definition html_getElementInfo :: "HTMLValidator \<Rightarrow> string \<Rightarrow> htmlElement option" where
  "html_getElementInfo v elementName = mapGet (hv_elements v) (toLowerCase elementName)"

text \<open>
  The facade \<open>HTMLDataSystem\<close> (its source is printed after the CSS validator in
  CSS/src/CSSValidator-new.js): \<open>validator\<close> is \<open>null\<close> until \<open>initialize\<close>.
\<close>

record HTMLDataSystem =
  hds_validator :: "HTMLValidator option"
  hds_data :: "htmlData option"

definition hds_notInitialized :: string where
  "hds_notInitialized = ''HTML Data System not initialized. Call initialize() first.''"

definition hds_validateElement :: "HTMLDataSystem \<Rightarrow> string \<Rightarrow> exn + elementResult" where
  "hds_validateElement sys elementName =
     (case hds_validator sys of
        None \<Rightarrow> Inl (NotInitialized hds_notInitialized)
      | Some v \<Rightarrow> Inr (html_validateElement v elementName))"

definition hds_validateAttribute :: "HTMLDataSystem \<Rightarrow> string \<Rightarrow> string \<Rightarrow> exn + attributeResult" where
  "hds_validateAttribute sys elementName attributeName =
     (case hds_validator sys of
        None \<Rightarrow> Inl (NotInitialized hds_notInitialized)
      | Some v \<Rightarrow> Inr (html_validateAttribute v elementName attributeName))"

definition hds_getElementInfo :: "HTMLDataSystem \<Rightarrow> string \<Rightarrow> exn + htmlElement option" where
  "hds_getElementInfo sys elementName =
     (case hds_validator sys of
        None \<Rightarrow> Inl (NotInitialized hds_notInitialized)
      | Some v \<Rightarrow> Inr (html_getElementInfo v elementName))"

section \<open>The JavaScript dataset\<close>

text \<open>
  The document that \<open>JSON.parse\<close> returns for data/js-language.json, with the
  fields that the validators read. The member maps of a category are only ever
  enumerated by key, so their values are left abstract.
\<close>

record jsMember =
  mem_name :: "string option"
  mem_description :: "string option"
  mem_static :: "bool option"
  mem_type :: "string option"

record jsObject =
  obj_name :: "string option"
  obj_description :: "string option"
  obj_category :: "string option"
  obj_subcategory :: "string option"
  obj_methods :: "jsMember dict option"
  obj_staticMethods :: "jsMember dict option"
  obj_properties :: "jsMember dict option"

record jsKeyword =
  kw_name :: "string option"
  kw_description :: "string option"
  kw_category :: "string option"
  kw_attributes :: "jsMember dict option"

record jsCategory =
  cat_name :: "string option"
  cat_subcategories :: "unit dict option"
  cat_objects :: "unit dict option"
  cat_keywords :: "unit dict option"

record jsMetadata =
  md_version :: "string option"
  md_lastUpdated :: "string option"
  md_totalCategories :: "int option"
  md_totalObjects :: "int option"
  md_totalKeywords :: "int option"
  md_totalMethods :: "int option"

record jsData =
  jd_categories :: "jsCategory dict option"
  jd_objects :: "jsObject dict option"
  jd_keywords :: "jsKeyword dict option"
  jd_metadata :: "jsMetadata option"

section \<open>The JavaScript validator (Javascript/src/JavaScriptValidator.js)\<close>

text \<open>\<open>data\<close> is \<open>null\<close> until \<open>initialize\<close> has read the file.\<close>

record JavaScriptValidator =
  jv_data :: "jsData option"

definition js_notInitialized :: string where
  "js_notInitialized = ''Validator not initialized. Call initialize() first.''"

definition js_calculateSimilarity :: "string \<Rightarrow> string \<Rightarrow> rat" where
  "js_calculateSimilarity str1 str2 =
     (let maxLength = max (length str1) (length str2)
      in if maxLength = 0 then 1
         else (let matches = length (filter (\<lambda>i. str1 ! i = str2 ! i)
                                            [0 ..< min (length str1) (length str2)])
               in of_nat matches / of_nat maxLength))"

definition js_findSimilarObjects :: "JavaScriptValidator \<Rightarrow> string \<Rightarrow> exn + string list" where
  "js_findSimilarObjects v objectName =
     (case jv_data v of
        None \<Rightarrow> Inr []
      | Some d \<Rightarrow>
          (case jd_objects d of
             None \<Rightarrow> Inl TypeError
           | Some objects \<Rightarrow>
               Inr (take 3 (filter (\<lambda>name. js_calculateSimilarity (toLowerCase objectName)
                                                (toLowerCase name) > 1 / 2)
                                   (keys objects)))))"

definition js_findSimilarMethods :: "jsMember dict \<Rightarrow> jsMember dict \<Rightarrow> string \<Rightarrow> string list" where
  "js_findSimilarMethods methods staticMethods methodName =
     (let allMethods = keys methods @ keys staticMethods
      in take 3 (filter (\<lambda>name. js_calculateSimilarity (toLowerCase methodName)
                                     (toLowerCase name) > 1 / 2)
                        allMethods))"

definition js_findSimilarKeywords :: "JavaScriptValidator \<Rightarrow> string \<Rightarrow> exn + string list" where
  "js_findSimilarKeywords v keyword =
     (case jv_data v of
        None \<Rightarrow> Inr []
      | Some d \<Rightarrow>
          (case jd_keywords d of
             None \<Rightarrow> Inl TypeError
           | Some keywords \<Rightarrow>
               Inr (take 3 (filter (\<lambda>name. js_calculateSimilarity (toLowerCase keyword)
                                                (toLowerCase name) > 1 / 2)
                                   (keys keywords)))))"

text \<open>
  The result of \<open>validateObject\<close>: \<open>object\<close> is the value found (\<open>Absent\<close> for
  \<open>null\<close>), \<open>suggestion\<close> is \<open>None\<close> for \<open>null\<close>.
\<close>

record objectResult =
  or_exists :: bool
  or_object :: "jsObject lookup"
  or_suggestion :: "string list option"

definition js_validateObject :: "JavaScriptValidator \<Rightarrow> string \<Rightarrow> exn + objectResult" where
  "js_validateObject v objectName =
     (case jv_data v of
        None \<Rightarrow> Inl (NotInitialized js_notInitialized)
      | Some d \<Rightarrow>
          (case jd_objects d of
             None \<Rightarrow> Inl TypeError
           | Some objects \<Rightarrow>
               (let object = getProp objects objectName
                in if truthy object
                   then Inr \<lparr>or_exists = True, or_object = object, or_suggestion = None\<rparr>
                   else (case js_findSimilarObjects v objectName of
                           Inl e \<Rightarrow> Inl e
                         | Inr sug \<Rightarrow>
                             Inr \<lparr>or_exists = False, or_object = Absent,
                                  or_suggestion = Some sug\<rparr>))))"

text \<open>
  The result of \<open>validateMethod\<close> has two shapes. When the parent object is not
  found it has the fields \<open>exists\<close>, \<open>error\<close> and \<open>suggestion\<close>; otherwise it has
  \<open>exists\<close>, \<open>method\<close>, \<open>isStatic\<close> and \<open>suggestion\<close>. A field that the shape
  does not have is \<open>None\<close>; so is a \<open>suggestion\<close> that is \<open>null\<close>.
\<close>

record methodResult =
  mr_exists :: bool
  mr_error :: "string option"
  mr_method :: "jsMember lookup option"
  mr_isStatic :: "bool option"
  mr_suggestion :: "string list option"

definition js_validateMethod :: "JavaScriptValidator \<Rightarrow> string \<Rightarrow> string \<Rightarrow> exn + methodResult" where
  "js_validateMethod v objectName methodName =
     (case jv_data v of
        None \<Rightarrow> Inl (NotInitialized js_notInitialized)
      | Some d \<Rightarrow>
          (case jd_objects d of
             None \<Rightarrow> Inl TypeError
           | Some objects \<Rightarrow>
               (case getProp objects objectName of
                  Absent \<Rightarrow>
                    (case js_findSimilarObjects v objectName of
                       Inl e \<Rightarrow> Inl e
                     | Inr sug \<Rightarrow>
                         Inr \<lparr>mr_exists = False,
                              mr_error = Some (''Object '' @ [CHR 0x27] @ objectName @ [CHR 0x27]
                                               @ '' not found''),
                              mr_method = None, mr_isStatic = None,
                              mr_suggestion = Some sug\<rparr>)
                | Inherited \<Rightarrow> Inl TypeError
                | Own object \<Rightarrow>
                    (case (obj_methods object, obj_staticMethods object) of
                       (Some methods, Some staticMethods) \<Rightarrow>
                         (let method = (if truthy (getProp methods methodName)
                                        then getProp methods methodName
                                        else getProp staticMethods methodName)
                          in Inr \<lparr>mr_exists = truthy method,
                                  mr_error = None,
                                  mr_method = Some method,
                                  mr_isStatic = Some (truthy (getProp staticMethods methodName)),
                                  mr_suggestion =
                                    (if truthy method then None
                                     else Some (js_findSimilarMethods methods staticMethods
                                                  methodName))\<rparr>)
                     | _ \<Rightarrow> Inl TypeError))))"

record keywordResult =
  kr_exists :: bool
  kr_keyword :: "jsKeyword lookup"
  kr_suggestion :: "string list option"

definition js_validateKeyword :: "JavaScriptValidator \<Rightarrow> string \<Rightarrow> exn + keywordResult" where
  "js_validateKeyword v keyword =
     (case jv_data v of
        None \<Rightarrow> Inl (NotInitialized js_notInitialized)
      | Some d \<Rightarrow>
          (case jd_keywords d of
             None \<Rightarrow> Inl TypeError
           | Some keywords \<Rightarrow>
               (let keywordData = getProp keywords keyword
                in if truthy keywordData
                   then Inr \<lparr>kr_exists = True, kr_keyword = keywordData, kr_suggestion = None\<rparr>
                   else (case js_findSimilarKeywords v keyword of
                           Inl e \<Rightarrow> Inl e
                         | Inr sug \<Rightarrow>
                             Inr \<lparr>kr_exists = False, kr_keyword = Absent,
                                  kr_suggestion = Some sug\<rparr>))))"

definition js_getStats :: "JavaScriptValidator \<Rightarrow> exn + jsMetadata option" where
  "js_getStats v =
     (case jv_data v of
        None \<Rightarrow> Inl (NotInitialized js_notInitialized)
      | Some d \<Rightarrow> Inr (jd_metadata d))"

text \<open>
  The facade \<open>JavaScriptDataSystem\<close> (Javascript/src/index.js) owns a validator
  and a flag that \<open>initialize\<close> sets; every operation calls \<open>ensureInitialized\<close>
  first.
\<close>

record JavaScriptDataSystem =
  jds_validator :: JavaScriptValidator
  jds_initialized :: bool

definition jds_ensureInitialized :: "JavaScriptDataSystem \<Rightarrow> exn option" where
  "jds_ensureInitialized sys =
     (if \<not> jds_initialized sys
      then Some (NotInitialized ''System not initialized. Call initialize() first.'')
      else None)"

definition jds_validateObject :: "JavaScriptDataSystem \<Rightarrow> string \<Rightarrow> exn + objectResult" where
  "jds_validateObject sys objectName =
     (case jds_ensureInitialized sys of
        Some e \<Rightarrow> Inl e
      | None \<Rightarrow> js_validateObject (jds_validator sys) objectName)"

definition jds_validateMethod :: "JavaScriptDataSystem \<Rightarrow> string \<Rightarrow> string \<Rightarrow> exn + methodResult" where
  "jds_validateMethod sys objectName methodName =
     (case jds_ensureInitialized sys of
        Some e \<Rightarrow> Inl e
      | None \<Rightarrow> js_validateMethod (jds_validator sys) objectName methodName)"

definition jds_validateKeyword :: "JavaScriptDataSystem \<Rightarrow> string \<Rightarrow> exn + keywordResult" where
  "jds_validateKeyword sys keyword =
     (case jds_ensureInitialized sys of
        Some e \<Rightarrow> Inl e
      | None \<Rightarrow> js_validateKeyword (jds_validator sys) keyword)"

definition jds_getStats :: "JavaScriptDataSystem \<Rightarrow> exn + jsMetadata option" where
  "jds_getStats sys =
     (case jds_ensureInitialized sys of
        Some e \<Rightarrow> Inl e
      | None \<Rightarrow> js_getStats (jds_validator sys))"

section \<open>The CSS dataset and validator (CSS/src/CSSValidator-new.js)\<close>

record cssProperty =
  cp_name :: "string option"
  cp_syntax :: "string option"
  cp_isVendorPrefix :: "bool option"
  cp_isCustomProperty :: "bool option"

record cssType =
  ct_name :: "string option"
  ct_definition :: "string option"

record cssFunction =
  cf_name :: "string option"
  cf_syntax :: "string option"
  cf_parameters :: "string list option"

record cssEntry =
  ce_name :: "string option"
  ce_syntax :: "string option"
  ce_description :: "string option"

text \<open>
  The five sections of \<open>categories\<close> map a group name to the map of the
  group's entries. Only the data validator reads the types; there a group may
  also hold \<open>null\<close> in place of its map (\<open>None\<close>), the value of the wrong kind
  that the model admits in a file that parses.
\<close>

record cssCategories =
  cc_properties :: "cssProperty dict dict option"
  cc_types :: "cssType dict option dict option"
  cc_selectors :: "cssEntry dict dict option"
  cc_functions :: "cssFunction dict dict option"
  cc_atRules :: "cssEntry dict dict option"

record cssStatistics =
  cs_totalProperties :: "int option"
  cs_totalTypes :: "int option"
  cs_totalSelectors :: "int option"
  cs_totalFunctions :: "int option"
  cs_totalAtRules :: "int option"

record cssMetadata =
  cm_version :: "string option"

record cssData =
  cd_metadata :: "cssMetadata option"
  cd_categories :: "cssCategories option"
  cd_statistics :: "cssStatistics option"

record CSSValidator =
  cv_data :: "cssData option"

definition css_notInitialized :: string where
  "css_notInitialized = ''Validator not initialized. Call initialize() first.''"

text \<open>\<open>s.includes(q)\<close>.\<close>

fun strIncludes :: "string \<Rightarrow> string \<Rightarrow> bool" where
  "strIncludes [] q = (q = [])"
| "strIncludes (c # s) q = (startsWith (c # s) q \<or> strIncludes s q)"

text \<open>
  \<open>this.data.categories.properties\<close> and \<open>this.data.categories.functions\<close>:
  reading a field of \<open>null\<close> or \<open>undefined\<close> throws a \<open>TypeError\<close>, and so
  does \<open>Object.keys(undefined)\<close>.
\<close>

definition css_propertiesOf :: "CSSValidator \<Rightarrow> exn + cssProperty dict dict" where
  "css_propertiesOf v =
     (case cv_data v of
        None \<Rightarrow> Inl TypeError
      | Some d \<Rightarrow> (case cd_categories d of
                     None \<Rightarrow> Inl TypeError
                   | Some c \<Rightarrow> (case cc_properties c of
                                  None \<Rightarrow> Inl TypeError
                                | Some ps \<Rightarrow> Inr ps)))"

definition css_functionsOf :: "CSSValidator \<Rightarrow> exn + cssFunction dict dict" where
  "css_functionsOf v =
     (case cv_data v of
        None \<Rightarrow> Inl TypeError
      | Some d \<Rightarrow> (case cd_categories d of
                     None \<Rightarrow> Inl TypeError
                   | Some c \<Rightarrow> (case cc_functions c of
                                  None \<Rightarrow> Inl TypeError
                                | Some fs \<Rightarrow> Inr fs)))"

text \<open>
  \<open>findSimilarProperties\<close>: every property name within distance 3 of the query,
  with its distance and category; then a sort by distance (the sort of an array
  is stable), the first five, and their names.
\<close>

definition css_similarIn :: "string \<Rightarrow> string \<times> cssProperty dict \<Rightarrow> (string \<times> nat \<times> string) list" where
  "css_similarIn queryLower entry =
     concat (map (\<lambda>propName.
                    (case css_levenshteinDistance queryLower (toLowerCase propName) of
                       None \<Rightarrow> []
                     | Some distance \<Rightarrow>
                         if distance \<le> 3 then [(propName, distance, fst entry)] else []))
                 (keys (snd entry)))"

definition css_findSimilarProperties :: "CSSValidator \<Rightarrow> string \<Rightarrow> exn + string list" where
  "css_findSimilarProperties v propertyName =
     (case css_propertiesOf v of
        Inl e \<Rightarrow> Inl e
      | Inr properties \<Rightarrow>
          (let queryLower = toLowerCase propertyName;
               suggestions = concat (map (css_similarIn queryLower) properties)
           in Inr (map fst (take 5 (sort_key (\<lambda>s. fst (snd s)) suggestions)))))"

definition css_findSimilarFunctions :: "CSSValidator \<Rightarrow> string \<Rightarrow> exn + string list" where
  "css_findSimilarFunctions v functionName =
     (case css_functionsOf v of
        Inl e \<Rightarrow> Inl e
      | Inr functions \<Rightarrow>
          (let queryLower = toLowerCase functionName;
               suggestions = concat (map (\<lambda>entry.
                                 filter (\<lambda>funcName. strIncludes (toLowerCase funcName) queryLower)
                                        (keys (snd entry)))
                               functions)
           in Inr (take 3 suggestions)))"

text \<open>The first category whose map has the name (own or inherited), as the loop with \<open>break\<close> finds it.\<close>

fun css_firstHit :: "'a dict dict \<Rightarrow> string \<Rightarrow> (string \<times> 'a lookup) option" where
  "css_firstHit [] name = None"
| "css_firstHit ((category, entries) # rest) name =
     (if truthy (getProp entries name) then Some (category, getProp entries name)
      else css_firstHit rest name)"

record propertyResult =
  pr_valid :: bool
  pr_property :: string
  pr_category :: "string option"
  pr_syntax :: "string option"
  pr_isVendorPrefix :: "bool option"
  pr_isCustomProperty :: "bool option"
  pr_suggestions :: "string list"

definition css_validateProperty :: "CSSValidator \<Rightarrow> string \<Rightarrow> exn + propertyResult" where
  "css_validateProperty v propertyName =
     (case cv_data v of
        None \<Rightarrow> Inl (NotInitialized css_notInitialized)
      | Some d \<Rightarrow>
          (case css_propertiesOf v of
             Inl e \<Rightarrow> Inl e
           | Inr properties \<Rightarrow>
               (case css_firstHit properties propertyName of
                  Some (category, Own p) \<Rightarrow>
                    Inr \<lparr>pr_valid = True, pr_property = propertyName,
                         pr_category = Some category, pr_syntax = cp_syntax p,
                         pr_isVendorPrefix = cp_isVendorPrefix p,
                         pr_isCustomProperty = cp_isCustomProperty p,
                         pr_suggestions = []\<rparr>
                | Some (category, _) \<Rightarrow>
                    Inr \<lparr>pr_valid = True, pr_property = propertyName,
                         pr_category = Some category, pr_syntax = None,
                         pr_isVendorPrefix = None, pr_isCustomProperty = None,
                         pr_suggestions = []\<rparr>
                | None \<Rightarrow>
                    (case css_findSimilarProperties v propertyName of
                       Inl e \<Rightarrow> Inl e
                     | Inr sug \<Rightarrow>
                         Inr \<lparr>pr_valid = False, pr_property = propertyName,
                              pr_category = None, pr_syntax = None,
                              pr_isVendorPrefix = Some False,
                              pr_isCustomProperty = Some False,
                              pr_suggestions = sug\<rparr>))))"

record functionResult =
  fr_valid :: bool
  fr_function :: string
  fr_category :: "string option"
  fr_syntax :: "string option"
  fr_parameters :: "string list"
  fr_suggestions :: "string list"

text \<open>\<open>validateFunction\<close> starts with the loop: it has no test of \<open>this.data\<close>.\<close>

definition css_validateFunction :: "CSSValidator \<Rightarrow> string \<Rightarrow> exn + functionResult" where
  "css_validateFunction v functionName =
     (case css_functionsOf v of
        Inl e \<Rightarrow> Inl e
      | Inr functions \<Rightarrow>
          (case css_firstHit functions functionName of
             Some (category, Own f) \<Rightarrow>
               Inr \<lparr>fr_valid = True, fr_function = functionName,
                    fr_category = Some category, fr_syntax = cf_syntax f,
                    fr_parameters = (case cf_parameters f of None \<Rightarrow> [] | Some ps \<Rightarrow> ps),
                    fr_suggestions = []\<rparr>
           | Some (category, _) \<Rightarrow>
               Inr \<lparr>fr_valid = True, fr_function = functionName,
                    fr_category = Some category, fr_syntax = None,
                    fr_parameters = [], fr_suggestions = []\<rparr>
           | None \<Rightarrow>
               (case css_findSimilarFunctions v functionName of
                  Inl e \<Rightarrow> Inl e
                | Inr sug \<Rightarrow>
                    Inr \<lparr>fr_valid = False, fr_function = functionName,
                         fr_category = None, fr_syntax = None,
                         fr_parameters = [], fr_suggestions = sug\<rparr>)))"

section \<open>The JavaScript data validator (Javascript/scripts/validate-data.js)\<close>

text \<open>
  The two lists of findings. A run of the rule groups either finishes with a
  state or is cut short by an exception; the state at that moment is kept, so
  that the findings collected so far can be spoken about.
\<close>

record vstate =
  errors :: "string list"
  warnings :: "string list"

datatype run = Finished vstate | Crashed exn vstate

definition pushError :: "string \<Rightarrow> vstate \<Rightarrow> vstate" where
  "pushError m s = s\<lparr>errors := errors s @ [m]\<rparr>"

definition pushWarning :: "string \<Rightarrow> vstate \<Rightarrow> vstate" where
  "pushWarning m s = s\<lparr>warnings := warnings s @ [m]\<rparr>"

definition findings :: "run \<Rightarrow> vstate" where
  "findings r = (case r of Finished s \<Rightarrow> s | Crashed e s \<Rightarrow> s)"

definition andThen :: "run \<Rightarrow> (vstate \<Rightarrow> run) \<Rightarrow> run" where
  "andThen r f = (case r of Finished s \<Rightarrow> f s | Crashed e s \<Rightarrow> Crashed e s)"

text \<open>\<open>forEach\<close> with a body that may throw.\<close>

fun forEachRun :: "('a \<Rightarrow> vstate \<Rightarrow> run) \<Rightarrow> 'a list \<Rightarrow> vstate \<Rightarrow> run" where
  "forEachRun body [] s = Finished s"
| "forEachRun body (x # xs) s =
     (case body x s of
        Finished s' \<Rightarrow> forEachRun body xs s'
      | Crashed e s' \<Rightarrow> Crashed e s')"

subsection \<open>validateStructure\<close>

definition js_dataField :: "jsData \<Rightarrow> string \<Rightarrow> bool" where
  "js_dataField d field =
     (if field = ''categories'' then jd_categories d \<noteq> None
      else if field = ''objects'' then jd_objects d \<noteq> None
      else if field = ''keywords'' then jd_keywords d \<noteq> None
      else if field = ''metadata'' then jd_metadata d \<noteq> None
      else False)"

definition js_validateStructure :: "jsData \<Rightarrow> vstate \<Rightarrow> vstate" where
  "js_validateStructure d s =
     (let s = fold (\<lambda>field s. if \<not> js_dataField d field
                               then pushError (''Missing required field: '' @ field) s else s)
                   [''categories'', ''objects'', ''keywords'', ''metadata''] s;
          s = (if jd_categories d = None then pushError ''categories should be an object'' s else s);
          s = (if jd_objects d = None then pushError ''objects should be an object'' s else s);
          s = (if jd_keywords d = None then pushError ''keywords should be an object'' s else s);
          s = (if jd_metadata d = None then pushError ''metadata should be an object'' s else s)
      in s)"

subsection \<open>validateCategories\<close>

definition js_categoryField :: "jsCategory \<Rightarrow> string \<Rightarrow> bool" where
  "js_categoryField category field =
     (if field = ''subcategories'' then cat_subcategories category \<noteq> None
      else if field = ''objects'' then cat_objects category \<noteq> None
      else if field = ''keywords'' then cat_keywords category \<noteq> None
      else False)"

definition js_checkCategory :: "string \<times> jsCategory \<Rightarrow> vstate \<Rightarrow> vstate" where
  "js_checkCategory entry s =
     (let categoryName = fst entry; category = snd entry;
          s = (if \<not> truthyStr (cat_name category)
               then pushError (''Category '' @ categoryName @ '' missing name'') s else s);
          s = (if cat_name category \<noteq> Some categoryName
               then pushError (''Category name mismatch: '' @ categoryName @ '' vs ''
                               @ showStrOpt (cat_name category)) s
               else s)
      in fold (\<lambda>field s. if \<not> js_categoryField category field
                          then pushError (''Category '' @ categoryName @ '' missing '' @ field) s
                          else s)
              [''subcategories'', ''objects'', ''keywords''] s)"

definition js_validateCategories :: "jsData \<Rightarrow> vstate \<Rightarrow> run" where
  "js_validateCategories d s =
     (case jd_categories d of
        None \<Rightarrow> Crashed TypeError s
      | Some categories \<Rightarrow> Finished (fold js_checkCategory categories s))"

subsection \<open>validateObjects\<close>

definition js_objectFieldUndefined :: "jsObject \<Rightarrow> string \<Rightarrow> bool" where
  "js_objectFieldUndefined object field =
     (if field = ''name'' then obj_name object = None
      else if field = ''description'' then obj_description object = None
      else if field = ''methods'' then obj_methods object = None
      else if field = ''staticMethods'' then obj_staticMethods object = None
      else if field = ''properties'' then obj_properties object = None
      else True)"

definition isUpperAZ :: "char \<Rightarrow> bool" where
  "isUpperAZ c = (65 \<le> (of_char c :: nat) \<and> (of_char c :: nat) \<le> 90)"

text \<open>\<open>/^[A-Z]/.test(s)\<close> and \<open>/[A-Z]/.test(s)\<close>.\<close>

definition startsUpper :: "string \<Rightarrow> bool" where
  "startsUpper s = (case s of [] \<Rightarrow> False | c # cs \<Rightarrow> isUpperAZ c)"

definition hasUpper :: "string \<Rightarrow> bool" where
  "hasUpper s = list_ex isUpperAZ s"

text \<open>\<open>!x.description || x.description.length < 10\<close>.\<close>

definition shortDescription :: "string option \<Rightarrow> bool" where
  "shortDescription desc =
     (case desc of None \<Rightarrow> True | Some t \<Rightarrow> t = [] \<or> length t < 10)"

definition js_checkMember :: "string \<Rightarrow> string \<Rightarrow> string \<Rightarrow> string \<times> jsMember \<Rightarrow> vstate \<Rightarrow> vstate" where
  "js_checkMember objectName kind mismatch entry s =
     (let memberName = fst entry; member = snd entry;
          s = (if \<not> truthyStr (mem_name member) \<or> \<not> truthyStr (mem_description member)
               then pushError (''Object '' @ objectName @ kind @ memberName
                               @ '' missing required fields'') s
               else s);
          s = (if mem_name member \<noteq> Some memberName
               then pushError (mismatch @ objectName @ '': '' @ memberName @ '' vs ''
                               @ showStrOpt (mem_name member)) s
               else s)
      in s)"

definition js_checkStaticMethod :: "string \<Rightarrow> string \<times> jsMember \<Rightarrow> vstate \<Rightarrow> vstate" where
  "js_checkStaticMethod objectName entry s =
     (let s = js_checkMember objectName '' static method '' ''Static method name mismatch in '' entry s
      in if mem_static (snd entry) \<noteq> Some True
         then pushWarning (''Static method '' @ objectName @ ''.'' @ fst entry
                           @ '' should have static: true'') s
         else s)"

definition js_checkObject :: "jsData \<Rightarrow> string \<times> jsObject \<Rightarrow> vstate \<Rightarrow> run" where
  "js_checkObject d entry s =
     (let objectName = fst entry; object = snd entry;
          s = fold (\<lambda>field s. if js_objectFieldUndefined object field
                               then pushError (''Object '' @ objectName @ '' missing '' @ field) s
                               else s)
                   [''name'', ''description'', ''methods'', ''staticMethods'', ''properties''] s;
          s = (if obj_name object \<noteq> Some objectName
               then pushError (''Object name mismatch: '' @ objectName @ '' vs ''
                               @ showStrOpt (obj_name object)) s
               else s);
          s = (if objectName \<noteq> ''e'' \<and> \<not> startsUpper objectName
               then pushWarning (''Object '' @ objectName @ '' should start with uppercase letter'') s
               else s);
          s = (if shortDescription (obj_description object)
               then pushWarning (''Object '' @ objectName @ '' has short or missing description'') s
               else s);
          s = (case obj_methods object of
                 None \<Rightarrow> s
               | Some methods \<Rightarrow>
                   fold (js_checkMember objectName '' method '' ''Method name mismatch in '') methods s);
          s = (case obj_staticMethods object of
                 None \<Rightarrow> s
               | Some methods \<Rightarrow> fold (js_checkStaticMethod objectName) methods s);
          s = (case obj_properties object of
                 None \<Rightarrow> s
               | Some properties \<Rightarrow>
                   fold (js_checkMember objectName '' property '' ''Property name mismatch in '')
                        properties s)
      in if truthyStr (obj_category object)
         then (case jd_categories d of
                 None \<Rightarrow> Crashed TypeError s
               | Some categories \<Rightarrow>
                   if \<not> truthy (getProp categories (showStrOpt (obj_category object)))
                   then Finished (pushError (''Object '' @ objectName
                                             @ '' references non-existent category: ''
                                             @ showStrOpt (obj_category object)) s)
                   else Finished s)
         else Finished s)"

definition js_validateObjects :: "jsData \<Rightarrow> vstate \<Rightarrow> run" where
  "js_validateObjects d s =
     (case jd_objects d of
        None \<Rightarrow> Crashed TypeError s
      | Some objects \<Rightarrow> forEachRun (js_checkObject d) objects s)"

subsection \<open>validateKeywords\<close>

definition js_keywordFieldUndefined :: "jsKeyword \<Rightarrow> string \<Rightarrow> bool" where
  "js_keywordFieldUndefined keyword field =
     (if field = ''name'' then kw_name keyword = None
      else if field = ''description'' then kw_description keyword = None
      else if field = ''attributes'' then kw_attributes keyword = None
      else True)"

definition js_checkAttribute :: "string \<Rightarrow> string \<times> jsMember \<Rightarrow> vstate \<Rightarrow> vstate" where
  "js_checkAttribute keywordName entry s =
     (let attrName = fst entry; attribute = snd entry;
          s = (if \<not> truthyStr (mem_name attribute)
               then pushError (''Keyword '' @ keywordName @ '' attribute '' @ attrName
                               @ '' missing name'') s
               else s);
          s = (if mem_name attribute \<noteq> Some attrName
               then pushError (''Attribute name mismatch in '' @ keywordName @ '': '' @ attrName
                               @ '' vs '' @ showStrOpt (mem_name attribute)) s
               else s)
      in s)"

definition js_checkKeyword :: "jsData \<Rightarrow> string \<times> jsKeyword \<Rightarrow> vstate \<Rightarrow> run" where
  "js_checkKeyword d entry s =
     (let keywordName = fst entry; keyword = snd entry;
          s = fold (\<lambda>field s. if js_keywordFieldUndefined keyword field
                               then pushError (''Keyword '' @ keywordName @ '' missing '' @ field) s
                               else s)
                   [''name'', ''description'', ''attributes''] s;
          s = (if kw_name keyword \<noteq> Some keywordName
               then pushError (''Keyword name mismatch: '' @ keywordName @ '' vs ''
                               @ showStrOpt (kw_name keyword)) s
               else s);
          s = (if hasUpper keywordName
               then pushWarning (''Keyword '' @ keywordName @ '' contains uppercase letters'') s
               else s);
          s = (if shortDescription (kw_description keyword)
               then pushWarning (''Keyword '' @ keywordName @ '' has short or missing description'') s
               else s);
          s = (case kw_attributes keyword of
                 None \<Rightarrow> s
               | Some attributes \<Rightarrow> fold (js_checkAttribute keywordName) attributes s)
      in if truthyStr (kw_category keyword)
         then (case jd_categories d of
                 None \<Rightarrow> Crashed TypeError s
               | Some categories \<Rightarrow>
                   if \<not> truthy (getProp categories (showStrOpt (kw_category keyword)))
                   then Finished (pushError (''Keyword '' @ keywordName
                                             @ '' references non-existent category: ''
                                             @ showStrOpt (kw_category keyword)) s)
                   else Finished s)
         else Finished s)"

definition js_validateKeywords :: "jsData \<Rightarrow> vstate \<Rightarrow> run" where
  "js_validateKeywords d s =
     (case jd_keywords d of
        None \<Rightarrow> Crashed TypeError s
      | Some keywords \<Rightarrow> forEachRun (js_checkKeyword d) keywords s)"

subsection \<open>validateMetadata\<close>

definition js_metadataFieldUndefined :: "jsMetadata \<Rightarrow> string \<Rightarrow> bool" where
  "js_metadataFieldUndefined metadata field =
     (if field = ''version'' then md_version metadata = None
      else if field = ''lastUpdated'' then md_lastUpdated metadata = None
      else if field = ''totalCategories'' then md_totalCategories metadata = None
      else if field = ''totalObjects'' then md_totalObjects metadata = None
      else if field = ''totalKeywords'' then md_totalKeywords metadata = None
      else if field = ''totalMethods'' then md_totalMethods metadata = None
      else True)"

text \<open>
  The version test. The regular expression literal of the source is
  \<^verbatim>\<open>/^\\d+\\.\\d+\\.\\d+/\<close>, with every backslash doubled: it asks for a
  backslash, one or more letters \<open>d\<close>, a backslash, any character but a line
  terminator, and so on. The functions below match exactly that.
\<close>

definition matchBackslashDs :: "string \<Rightarrow> string option" where
  "matchBackslashDs s =
     (case s of
        c # d # rest \<Rightarrow>
          if c = CHR 0x5C \<and> d = CHR ''d'' then Some (dropWhile (\<lambda>x. x = CHR ''d'') rest)
          else None
      | _ \<Rightarrow> None)"

definition matchBackslashAny :: "string \<Rightarrow> string option" where
  "matchBackslashAny s =
     (case s of
        c # a # rest \<Rightarrow>
          if c = CHR 0x5C \<and> a \<noteq> CHR 0x0A \<and> a \<noteq> CHR 0x0D then Some rest else None
      | _ \<Rightarrow> None)"

definition versionMatches :: "string \<Rightarrow> bool" where
  "versionMatches s =
     (case matchBackslashDs s of
        None \<Rightarrow> False
      | Some s1 \<Rightarrow>
          (case matchBackslashAny s1 of
             None \<Rightarrow> False
           | Some s2 \<Rightarrow>
               (case matchBackslashDs s2 of
                  None \<Rightarrow> False
                | Some s3 \<Rightarrow>
                    (case matchBackslashAny s3 of
                       None \<Rightarrow> False
                     | Some s4 \<Rightarrow> matchBackslashDs s4 \<noteq> None))))"

text \<open>The loop that recomputes the number of methods.\<close>

definition js_countMethods :: "jsObject dict \<Rightarrow> nat" where
  "js_countMethods objects =
     fold (\<lambda>object actualMethods.
             actualMethods + length (keysOr (obj_methods object))
                           + length (keysOr (obj_staticMethods object)))
          (vals objects) 0"

definition js_validateMetadata :: "runtime \<Rightarrow> jsData \<Rightarrow> vstate \<Rightarrow> run" where
  "js_validateMetadata rt d s =
     (case jd_metadata d of
        None \<Rightarrow> Crashed TypeError s
      | Some metadata \<Rightarrow>
          (let s = fold (\<lambda>field s. if js_metadataFieldUndefined metadata field
                                    then pushError (''Metadata missing '' @ field) s else s)
                        [''version'', ''lastUpdated'', ''totalCategories'', ''totalObjects'',
                         ''totalKeywords'', ''totalMethods''] s
           in case (jd_categories d, jd_objects d, jd_keywords d) of
                (Some categories, Some objects, Some keywords) \<Rightarrow>
                  (let actualCategories = length (keys categories);
                       actualObjects = length (keys objects);
                       actualKeywords = length (keys keywords);
                       s = (if md_totalCategories metadata \<noteq> Some (int actualCategories)
                            then pushError (''Metadata category count mismatch: ''
                                            @ showNumberOpt rt (md_totalCategories metadata) @ '' vs ''
                                            @ rt_numberToString rt (int actualCategories)) s
                            else s);
                       s = (if md_totalObjects metadata \<noteq> Some (int actualObjects)
                            then pushError (''Metadata object count mismatch: ''
                                            @ showNumberOpt rt (md_totalObjects metadata) @ '' vs ''
                                            @ rt_numberToString rt (int actualObjects)) s
                            else s);
                       s = (if md_totalKeywords metadata \<noteq> Some (int actualKeywords)
                            then pushError (''Metadata keyword count mismatch: ''
                                            @ showNumberOpt rt (md_totalKeywords metadata) @ '' vs ''
                                            @ rt_numberToString rt (int actualKeywords)) s
                            else s);
                       actualMethods = js_countMethods objects;
                       s = (if md_totalMethods metadata \<noteq> Some (int actualMethods)
                            then pushError (''Metadata method count mismatch: ''
                                            @ showNumberOpt rt (md_totalMethods metadata) @ '' vs ''
                                            @ rt_numberToString rt (int actualMethods)) s
                            else s);
                       s = (if \<not> versionMatches (showStrOpt (md_version metadata))
                            then pushWarning (''Version should follow semantic versioning: ''
                                              @ showStrOpt (md_version metadata)) s
                            else s);
                       s = (if \<not> rt_dateParses rt (showStrOpt (md_lastUpdated metadata))
                            then pushError (''Invalid lastUpdated date format: ''
                                            @ showStrOpt (md_lastUpdated metadata)) s
                            else s)
                   in Finished s)
              | _ \<Rightarrow> Crashed TypeError s))"

subsection \<open>validateConsistency\<close>

text \<open>\<open>xs.indexOf(x)\<close>: the first index of \<open>x\<close>, or \<open>-1\<close>.\<close>

fun indexOf :: "'a list \<Rightarrow> 'a \<Rightarrow> int" where
  "indexOf [] x = - 1"
| "indexOf (y # ys) x =
     (if y = x then 0 else (let r = indexOf ys x in if r < 0 then - 1 else r + 1))"

text \<open>The body of the first loop, for one category.\<close>

definition js_checkReferences :: "jsData \<Rightarrow> string \<times> jsCategory \<Rightarrow> vstate \<Rightarrow> run" where
  "js_checkReferences d entry s =
     (let categoryName = fst entry; category = snd entry
      in andThen
           (forEachRun
              (\<lambda>objectName s.
                 case jd_objects d of
                   None \<Rightarrow> Crashed TypeError s
                 | Some objects \<Rightarrow>
                     if \<not> truthy (getProp objects objectName)
                     then Finished (pushError (''Category '' @ categoryName
                                               @ '' references non-existent object: ''
                                               @ objectName) s)
                     else Finished s)
              (keysOr (cat_objects category)) s)
           (forEachRun
              (\<lambda>keywordName s.
                 case jd_keywords d of
                   None \<Rightarrow> Crashed TypeError s
                 | Some keywords \<Rightarrow>
                     if \<not> truthy (getProp keywords keywordName)
                     then Finished (pushError (''Category '' @ categoryName
                                               @ '' references non-existent keyword: ''
                                               @ keywordName) s)
                     else Finished s)
              (keysOr (cat_keywords category))))"

text \<open>The body of the second loop, for one object.\<close>

definition js_duplicates :: "jsObject \<Rightarrow> string list" where
  "js_duplicates object =
     (let allMethods = keysOr (obj_methods object) @ keysOr (obj_staticMethods object)
      in map fst (filter (\<lambda>(method, index). indexOf allMethods method \<noteq> int index)
                         (zip allMethods [0 ..< length allMethods])))"

definition js_checkDuplicates :: "string \<times> jsObject \<Rightarrow> vstate \<Rightarrow> vstate" where
  "js_checkDuplicates entry s =
     (let objectName = fst entry; duplicates = js_duplicates (snd entry)
      in if length duplicates > 0
         then pushError (''Object '' @ objectName @ '' has duplicate methods: ''
                         @ join '', '' duplicates) s
         else s)"

text \<open>The body of the third loop, for one object.\<close>

definition js_checkEmpty :: "string \<times> jsObject \<Rightarrow> vstate \<Rightarrow> vstate" where
  "js_checkEmpty entry s =
     (let objectName = fst entry; object = snd entry;
          methodCount = length (keysOr (obj_methods object));
          staticMethodCount = length (keysOr (obj_staticMethods object));
          propertyCount = length (keysOr (obj_properties object))
      in if methodCount = 0 \<and> staticMethodCount = 0 \<and> propertyCount = 0
         then pushWarning (''Object '' @ objectName @ '' has no methods or properties'') s
         else s)"

definition js_validateConsistency :: "jsData \<Rightarrow> vstate \<Rightarrow> run" where
  "js_validateConsistency d s =
     (case jd_categories d of
        None \<Rightarrow> Crashed TypeError s
      | Some categories \<Rightarrow>
          andThen (forEachRun (js_checkReferences d) categories s)
            (\<lambda>s. case jd_objects d of
                    None \<Rightarrow> Crashed TypeError s
                  | Some objects \<Rightarrow>
                      Finished (fold js_checkEmpty objects (fold js_checkDuplicates objects s))))"

subsection \<open>reportResults and validate\<close>

text \<open>
  How a run of the script ends: it returns (\<open>Passed\<close>), it calls
  \<open>process.exit(1)\<close> in \<open>reportResults\<close> (\<open>Failed\<close>), or an exception leaves
  \<open>validate\<close> (\<open>Aborted\<close>). The dataset is reported valid in the first case only.
\<close>

datatype outcome = Passed | Failed | Aborted exn

text \<open>
  \<open>reportResults\<close> prints the findings and a summary of the data, for which it
  enumerates the three collections, and then exits with 1 when there are errors.
\<close>

definition js_reportResults :: "jsData \<Rightarrow> vstate \<Rightarrow> outcome" where
  "js_reportResults d s =
     (case (jd_categories d, jd_objects d, jd_keywords d) of
        (Some categories, Some objects, Some keywords) \<Rightarrow>
          if length (errors s) > 0 then Failed else Passed
      | _ \<Rightarrow> Aborted TypeError)"

definition js_runChecks :: "runtime \<Rightarrow> jsData \<Rightarrow> run" where
  "js_runChecks rt d =
     andThen (andThen (andThen (andThen
       (js_validateCategories d (js_validateStructure d \<lparr>errors = [], warnings = []\<rparr>))
       (js_validateObjects d))
       (js_validateKeywords d))
       (js_validateMetadata rt d))
       (js_validateConsistency d)"

definition js_validate :: "runtime \<Rightarrow> jsData \<Rightarrow> outcome" where
  "js_validate rt d =
     (case js_runChecks rt d of
        Crashed e s \<Rightarrow> Aborted e
      | Finished s \<Rightarrow> js_reportResults d s)"

section \<open>The CSS data validator (CSS/scripts/validate-data.js)\<close>

definition css_dataSection :: "cssData \<Rightarrow> string \<Rightarrow> bool" where
  "css_dataSection d section =
     (if section = ''metadata'' then cd_metadata d \<noteq> None
      else if section = ''categories'' then cd_categories d \<noteq> None
      else if section = ''statistics'' then cd_statistics d \<noteq> None
      else False)"

definition css_category :: "cssCategories \<Rightarrow> string \<Rightarrow> bool" where
  "css_category c category =
     (if category = ''properties'' then cc_properties c \<noteq> None
      else if category = ''types'' then cc_types c \<noteq> None
      else if category = ''selectors'' then cc_selectors c \<noteq> None
      else if category = ''functions'' then cc_functions c \<noteq> None
      else if category = ''atRules'' then cc_atRules c \<noteq> None
      else False)"

definition css_statistic :: "cssStatistics \<Rightarrow> string \<Rightarrow> int option" where
  "css_statistic st stat =
     (if stat = ''totalProperties'' then cs_totalProperties st
      else if stat = ''totalTypes'' then cs_totalTypes st
      else if stat = ''totalSelectors'' then cs_totalSelectors st
      else if stat = ''totalFunctions'' then cs_totalFunctions st
      else if stat = ''totalAtRules'' then cs_totalAtRules st
      else None)"

definition css_checkProperty :: "string \<times> cssProperty \<Rightarrow> vstate \<Rightarrow> vstate" where
  "css_checkProperty entry s =
     (let propName = fst entry; prop = snd entry;
          s = (if \<not> truthyStr (cp_name prop) \<or> \<not> truthyStr (cp_syntax prop)
               then pushError (''Property '' @ propName @ '' missing required fields'') s else s);
          s = (if cp_name prop \<noteq> Some propName
               then pushWarning (''Property name mismatch: '' @ propName @ '' vs ''
                                 @ showStrOpt (cp_name prop)) s
               else s)
      in s)"

definition css_checkType :: "string \<times> cssType \<Rightarrow> vstate \<Rightarrow> vstate" where
  "css_checkType entry s =
     (if \<not> truthyStr (ct_name (snd entry)) \<or> \<not> truthyStr (ct_definition (snd entry))
      then pushError (''Type '' @ fst entry @ '' missing required fields'') s else s)"

text \<open>
  The count comparison. With \<open>data.statistics\<close> missing, the optional chain gives
  \<open>undefined\<close>, which differs from every count, and the message then reads
  \<open>data.statistics.totalProperties\<close> without the chain: a \<open>TypeError\<close>.
\<close>

definition css_checkCount ::
  "runtime \<Rightarrow> cssData \<Rightarrow> string \<Rightarrow> (cssStatistics \<Rightarrow> int option) \<Rightarrow> nat \<Rightarrow> vstate \<Rightarrow> run" where
  "css_checkCount rt d label stored n s =
     (case cd_statistics d of
        None \<Rightarrow> Crashed TypeError s
      | Some st \<Rightarrow>
          if stored st \<noteq> Some (int n)
          then Finished (pushWarning (label @ '' count mismatch: ''
                                      @ showNumberOpt rt (stored st)
                                      @ '' vs '' @ rt_numberToString rt (int n)) s)
          else Finished s)"

text \<open>
  The inner loop over one group of types: \<open>Object.keys(types)\<close> throws a
  \<open>TypeError\<close> when the group is \<open>null\<close>.
\<close>

definition css_checkTypeGroup :: "string \<times> cssType dict option \<Rightarrow> vstate \<Rightarrow> run" where
  "css_checkTypeGroup entry s =
     (case snd entry of
        None \<Rightarrow> Crashed TypeError s
      | Some types \<Rightarrow> Finished (fold css_checkType types s))"

text \<open>
  \<open>typeCount\<close> after the loop over the groups. The count is read only when the
  loop has finished, that is when no group is \<open>null\<close>.
\<close>

definition css_typeCount :: "cssType dict option dict \<Rightarrow> nat" where
  "css_typeCount types =
     length (concat (map (\<lambda>entry. case snd entry of None \<Rightarrow> [] | Some ts \<Rightarrow> ts) types))"

definition css_checkCategories :: "runtime \<Rightarrow> cssData \<Rightarrow> cssCategories \<Rightarrow> vstate \<Rightarrow> run" where
  "css_checkCategories rt d c s =
     (let s = fold (\<lambda>category s. if \<not> css_category c category
                                  then pushError (''Missing required category: '' @ category) s
                                  else s)
                   [''properties'', ''types'', ''selectors'', ''functions'', ''atRules''] s
      in andThen
           (case cc_properties c of
              None \<Rightarrow> Finished s
            | Some properties \<Rightarrow>
                css_checkCount rt d ''Property'' cs_totalProperties
                  (length (concat (map snd properties)))
                  (fold (\<lambda>group s. fold css_checkProperty (snd group) s) properties s))
           (\<lambda>s. case cc_types c of
                   None \<Rightarrow> Finished s
                 | Some types \<Rightarrow>
                     andThen (forEachRun css_checkTypeGroup types s)
                       (css_checkCount rt d ''Type'' cs_totalTypes (css_typeCount types))))"

definition css_runChecks :: "runtime \<Rightarrow> cssData \<Rightarrow> run" where
  "css_runChecks rt d =
     (let s = fold (\<lambda>section s. if \<not> css_dataSection d section
                                 then pushError (''Missing required section: '' @ section) s
                                 else s)
                   [''metadata'', ''categories'', ''statistics''] \<lparr>errors = [], warnings = []\<rparr>
      in andThen
           (case cd_categories d of
              None \<Rightarrow> Finished s
            | Some c \<Rightarrow> css_checkCategories rt d c s)
           (\<lambda>s. case cd_statistics d of
                   None \<Rightarrow> Finished s
                 | Some st \<Rightarrow>
                     Finished (fold (\<lambda>stat s. if css_statistic st stat = None
                                               then pushError (''Invalid statistic: '' @ stat
                                                               @ '' should be a number'') s
                                               else s)
                                    [''totalProperties'', ''totalTypes'', ''totalSelectors'',
                                     ''totalFunctions'', ''totalAtRules''] s)))"

text \<open>
  \<open>validateCSSData\<close>: \<open>None\<close> is a data file that is missing or is not JSON.
  The \<open>catch\<close> turns every exception into the result \<open>false\<close>.
\<close>

definition validateCSSData :: "runtime \<Rightarrow> cssData option \<Rightarrow> bool" where
  "validateCSSData rt file =
     (case file of
        None \<Rightarrow> False
      | Some d \<Rightarrow>
          (case css_runChecks rt d of
             Crashed e s \<Rightarrow> False
           | Finished s \<Rightarrow> length (errors s) = 0))"

section \<open>Example datasets\<close>

text \<open>Small datasets on which the properties below are evaluated.\<close>

definition exDIV :: htmlElement where
  "exDIV = \<lparr>el_name = ''DIV'', el_category = ''Flow'', el_description = ''A generic container'',
             el_attributes = None\<rparr>"

definition exDiv :: htmlElement where
  "exDiv = \<lparr>el_name = ''div'', el_category = ''Flow'', el_description = ''A generic container'',
             el_attributes = Some [\<lparr>attr_name = ''align'', attr_description = ''Alignment'',
                                     attr_required = False\<rparr>]\<rparr>"

definition exMember :: "string \<Rightarrow> bool \<Rightarrow> jsMember" where
  "exMember n st = \<lparr>mem_name = Some n, mem_description = Some ''A member of the object'',
                     mem_static = Some st, mem_type = Some ''method''\<rparr>"

definition exObject :: "string \<Rightarrow> jsMember dict \<Rightarrow> jsMember dict \<Rightarrow> jsObject" where
  "exObject n ms ss = \<lparr>obj_name = Some n, obj_description = Some ''A built-in object'',
                        obj_category = None, obj_subcategory = None,
                        obj_methods = Some ms, obj_staticMethods = Some ss,
                        obj_properties = Some []\<rparr>"

definition exData :: "jsObject dict \<Rightarrow> jsData" where
  "exData objs = \<lparr>jd_categories = Some [], jd_objects = Some objs, jd_keywords = Some [],
                   jd_metadata = None\<rparr>"

definition exArrayOnly :: JavaScriptValidator where
  "exArrayOnly = \<lparr>jv_data = Some (exData
     [(''Array'', exObject ''Array'' [(''map'', exMember ''map'' False)]
                                     [(''isArray'', exMember ''isArray'' True)])])\<rparr>"

definition exArrayFull :: JavaScriptValidator where
  "exArrayFull = \<lparr>jv_data = Some (exData
     [(''Array'', exObject ''Array''
                    [(''map'', exMember ''map'' False), (''flat'', exMember ''flat'' False),
                     (''flatMap'', exMember ''flatMap'' False)]
                    [(''isArray'', exMember ''isArray'' True)])])\<rparr>"

definition exArrayObject :: jsObject where
  "exArrayObject = exObject ''Array''
                    [(''map'', exMember ''map'' False), (''flat'', exMember ''flat'' False),
                     (''flatMap'', exMember ''flatMap'' False)]
                    [(''isArray'', exMember ''isArray'' True)]"

definition exArrays :: JavaScriptValidator where
  "exArrays = \<lparr>jv_data = Some (exData
     [(''Arrays'', exObject ''Arrays'' [] []), (''Array'', exObject ''Array'' [] [])])\<rparr>"

definition exProperty :: "string \<Rightarrow> cssProperty" where
  "exProperty n = \<lparr>cp_name = Some n, cp_syntax = Some ''<value>'',
                    cp_isVendorPrefix = Some False, cp_isCustomProperty = Some False\<rparr>"

definition exCss :: CSSValidator where
  "exCss = \<lparr>cv_data = Some \<lparr>cd_metadata = None,
       cd_categories = Some \<lparr>cc_properties =
           Some [(''text'', [(''gaps'', exProperty ''gaps''), (''border'', exProperty ''border'')]),
                 (''box'', [(''top'', exProperty ''top'')])],
         cc_types = None, cc_selectors = None, cc_functions = None, cc_atRules = None\<rparr>,
       cd_statistics = None\<rparr>\<rparr>"

text \<open>
  A runtime for the examples. The one date they hold is \<open>2024-01-01\<close>, which
  \<open>Date.parse\<close> reads on every implementation, and their counts are small, so that
  the decimal printing is the runtime's.
\<close>

definition exRuntime :: runtime where
  "exRuntime = \<lparr>rt_dateParses = (\<lambda>s. s = ''2024-01-01''), rt_numberToString = decimalInt\<rparr>"

definition exMetadata :: "int \<Rightarrow> jsMetadata" where
  "exMetadata n = \<lparr>md_version = Some ''1.0.0'', md_lastUpdated = Some ''2024-01-01'',
                    md_totalCategories = Some 0, md_totalObjects = Some 1,
                    md_totalKeywords = Some 0, md_totalMethods = Some n\<rparr>"





text \<open>A dataset without a fault: one object with four methods, and the right totals.\<close>

definition exGood :: jsData where
  "exGood = \<lparr>jd_categories = Some [], jd_objects = Some [(''Array'', exArrayObject)],
              jd_keywords = Some [], jd_metadata = Some (exMetadata 4)\<rparr>"

text \<open>
  A category that lists two objects, \<open>Widget\<close> and \<open>constructor\<close>, neither of which
  is a key of the objects collection.
\<close>

definition exDangling :: jsData where
  "exDangling = \<lparr>jd_categories = Some [(''Core'',
                     \<lparr>cat_name = Some ''Core'', cat_subcategories = Some [],
                      cat_objects = Some [(''Widget'', ()), (''constructor'', ())],
                      cat_keywords = Some []\<rparr>)],
                  jd_objects = Some [(''Array'', exArrayObject)],
                  jd_keywords = Some [], jd_metadata = Some (exMetadata 4)\<rparr>"

definition exStatistics :: "int \<Rightarrow> cssStatistics" where
  "exStatistics n = \<lparr>cs_totalProperties = Some n, cs_totalTypes = Some 0,
                      cs_totalSelectors = Some 0, cs_totalFunctions = Some 0,
                      cs_totalAtRules = Some 0\<rparr>"

text \<open>A file with one property, whose statistics claim two.\<close>

definition exWarned :: cssData where
  "exWarned = \<lparr>cd_metadata = Some \<lparr>cm_version = Some ''1.0.0''\<rparr>,
       cd_categories = Some \<lparr>cc_properties = Some [(''box'', [(''top'', exProperty ''top'')])],
         cc_types = Some [], cc_selectors = Some [], cc_functions = Some [],
         cc_atRules = Some []\<rparr>,
       cd_statistics = Some (exStatistics 2)\<rparr>"

text \<open>A file with every section, in which the group \<open>lengths\<close> of the types is \<open>null\<close>.\<close>

definition exNullGroup :: cssData where
  "exNullGroup = \<lparr>cd_metadata = Some \<lparr>cm_version = Some ''1.0.0''\<rparr>,
       cd_categories = Some \<lparr>cc_properties = Some [],
         cc_types = Some [(''lengths'', None)], cc_selectors = Some [], cc_functions = Some [],
         cc_atRules = Some []\<rparr>,
       cd_statistics = Some (exStatistics 0)\<rparr>"

chapter \<open>Properties\<close>

section \<open>The two Levenshtein routines and the classic edit distance\<close>

text \<open>
  The recurrence computes the least cost of an edit script: it is the cost of
  some script, and no script is cheaper.
\<close>

lemma edits_from_Nil: "edits [] ys (length ys)"
  by (induction ys) (auto intro: edits.intros)

lemma edits_to_Nil: "edits xs [] (length xs)"
  by (induction xs) (auto intro: edits.intros)

lemma edits_editDistanceRec: "edits xs ys (editDistanceRec xs ys)"
proof (induction xs ys rule: editDistanceRec.induct)
  case (1 ys)
  show ?case by (simp add: edits_from_Nil)
next
  case (2 x xs)
  have "edits (x # xs) [] (length (x # xs))" by (rule edits_to_Nil)
  then show ?case by simp
next
  case (3 x xs y ys)
  have a: "edits (x # xs) (y # ys) (editDistanceRec xs ys + (if x = y then 0 else 1))"
    using 3(1) by (auto intro: edits.intros)
  have b: "edits (x # xs) (y # ys) (editDistanceRec xs (y # ys) + 1)"
    using 3(2) by (auto intro: edits.intros)
  have c: "edits (x # xs) (y # ys) (editDistanceRec (x # xs) ys + 1)"
    using 3(3) by (auto intro: edits.intros)
  show ?case
    using a b c by (simp add: min_def split: if_splits)
qed

lemma editDistanceRec_Nil2: "editDistanceRec xs [] = length xs"
  by (cases xs) simp_all

lemma editDistanceRec_le: "edits xs ys n \<Longrightarrow> editDistanceRec xs ys \<le> n"
proof (induction rule: edits.induct)
  case edits_Nil
  show ?case by simp
next
  case (edits_Keep xs ys n x)
  then show ?case by simp
next
  case (edits_Subst xs ys n x y)
  then show ?case by (simp add: min_def)
next
  case (edits_Delete xs ys n x)
  note ih = edits_Delete.IH
  show ?case
  proof (cases ys)
    case Nil
    then show ?thesis using ih by (simp add: editDistanceRec_Nil2)
  next
    case (Cons y ys')
    then show ?thesis using ih by (simp add: min_def)
  qed
next
  case (edits_Insert xs ys n y)
  note ih = edits_Insert.IH
  show ?case
  proof (cases xs)
    case Nil
    then show ?thesis using ih by simp
  next
    case (Cons x xs')
    then show ?thesis using ih by (simp add: min_def)
  qed
qed

lemma classic_edit_distance_rec: "classic_edit_distance xs ys = editDistanceRec xs ys"
  unfolding classic_edit_distance_def
proof (rule Least_equality)
  show "edits xs ys (editDistanceRec xs ys)" by (rule edits_editDistanceRec)
next
  fix n assume "edits xs ys n"
  then show "editDistanceRec xs ys \<le> n" by (rule editDistanceRec_le)
qed

lemma edits_snoc_keep: "edits xs ys n \<Longrightarrow> edits (xs @ [a]) (ys @ [a]) n"
  by (induction rule: edits.induct) (simp_all add: edits.intros)

lemma edits_snoc_subst: "edits xs ys n \<Longrightarrow> edits (xs @ [a]) (ys @ [b]) (Suc n)"
  by (induction rule: edits.induct) (simp_all add: edits.intros)

lemma edits_snoc_delete: "edits xs ys n \<Longrightarrow> edits (xs @ [a]) ys (Suc n)"
  by (induction rule: edits.induct) (simp_all add: edits.intros)

lemma edits_snoc_insert: "edits xs ys n \<Longrightarrow> edits xs (ys @ [b]) (Suc n)"
  by (induction rule: edits.induct) (simp_all add: edits.intros)

lemma edits_rev: "edits xs ys n \<Longrightarrow> edits (rev xs) (rev ys) n"
  by (induction rule: edits.induct)
     (simp_all add: edits.intros edits_snoc_keep edits_snoc_subst edits_snoc_delete edits_snoc_insert)

lemma edits_sym: "edits xs ys n \<Longrightarrow> edits ys xs n"
  by (induction rule: edits.induct) (simp_all add: edits.intros)

lemma editDistanceRec_rev: "editDistanceRec (rev xs) (rev ys) = editDistanceRec xs ys"
proof (rule antisym)
  show "editDistanceRec (rev xs) (rev ys) \<le> editDistanceRec xs ys"
    by (rule editDistanceRec_le [OF edits_rev [OF edits_editDistanceRec]])
  have "edits (rev (rev xs)) (rev (rev ys)) (editDistanceRec (rev xs) (rev ys))"
    by (rule edits_rev [OF edits_editDistanceRec])
  then show "editDistanceRec xs ys \<le> editDistanceRec (rev xs) (rev ys)"
    by (simp add: editDistanceRec_le)
qed

lemma editDistanceRec_sym: "editDistanceRec xs ys = editDistanceRec ys xs"
  by (rule antisym) (rule editDistanceRec_le [OF edits_sym [OF edits_editDistanceRec]])+

lemma edits_drop_right:
  "edits xs zs n \<Longrightarrow> zs = y # ys \<Longrightarrow> \<exists>m\<le>Suc n. edits xs ys m"
proof (induction arbitrary: y ys rule: edits.induct)
  case edits_Nil
  then show ?case by simp
next
  case (edits_Keep xs ys' n x)
  then show ?case by (auto intro: edits.intros)
next
  case (edits_Subst xs ys' n x y')
  then have "edits (x # xs) ys (Suc n)" by (auto intro: edits.intros)
  then show ?case by (intro exI [of _ "Suc n"]) simp
next
  case (edits_Delete xs ys' n x)
  then obtain m where "m \<le> Suc n" "edits xs ys m" by blast
  then have "Suc m \<le> Suc (Suc n)" "edits (x # xs) ys (Suc m)" by (auto intro: edits.intros)
  then show ?case by blast
next
  case (edits_Insert xs ys' n y')
  then have "edits xs ys n" by simp
  then show ?case by (intro exI [of _ n]) simp
qed

lemma editDistanceRec_drop_right: "editDistanceRec xs ys \<le> Suc (editDistanceRec xs (y # ys))"
proof -
  have "\<exists>m\<le>Suc (editDistanceRec xs (y # ys)). edits xs ys m"
    by (rule edits_drop_right [OF edits_editDistanceRec refl])
  then obtain m where m: "m \<le> Suc (editDistanceRec xs (y # ys))" "edits xs ys m"
    by (elim exE conjE)
  have "editDistanceRec xs ys \<le> m" using m(2) by (rule editDistanceRec_le)
  with m(1) show ?thesis by (rule le_trans [rotated])
qed

lemma editDistanceRec_drop_left: "editDistanceRec xs ys \<le> Suc (editDistanceRec (x # xs) ys)"
  using editDistanceRec_drop_right [of ys xs x] by (simp add: editDistanceRec_sym)

lemma editDistanceRec_Cons_same: "editDistanceRec (x # xs) (x # ys) = editDistanceRec xs ys"
  using editDistanceRec_drop_right [of xs ys x] editDistanceRec_drop_left [of xs ys x]
  by (simp add: min_def)

lemma editDistanceRec_snoc:
  "editDistanceRec (xs @ [x]) (ys @ [y]) =
     (if x = y then editDistanceRec xs ys
      else Suc (min (editDistanceRec xs ys)
                    (min (editDistanceRec xs (ys @ [y])) (editDistanceRec (xs @ [x]) ys))))"
proof -
  have a: "editDistanceRec (xs @ [x]) (ys @ [y]) = editDistanceRec (x # rev xs) (y # rev ys)"
    using editDistanceRec_rev [of "xs @ [x]" "ys @ [y]"] by simp
  have b: "editDistanceRec (rev xs) (y # rev ys) = editDistanceRec xs (ys @ [y])"
    using editDistanceRec_rev [of xs "ys @ [y]"] by simp
  have c: "editDistanceRec (x # rev xs) (rev ys) = editDistanceRec (xs @ [x]) ys"
    using editDistanceRec_rev [of "xs @ [x]" ys] by simp
  have d: "editDistanceRec (rev xs) (rev ys) = editDistanceRec xs ys"
    by (rule editDistanceRec_rev)
  show ?thesis
  proof (cases "x = y")
    case True
    have "editDistanceRec (x # rev xs) (x # rev ys) = editDistanceRec (rev xs) (rev ys)"
      by (rule editDistanceRec_Cons_same)
    with True a d show ?thesis by (simp del: editDistanceRec.simps)
  next
    case False
    have "editDistanceRec (x # rev xs) (y # rev ys) =
       min (editDistanceRec (rev xs) (rev ys) + 1)
         (min (editDistanceRec (rev xs) (y # rev ys) + 1) (editDistanceRec (x # rev xs) (rev ys) + 1))"
      using False by simp
    then show ?thesis unfolding a b c d using False by (simp add: min_def)
  qed
qed


lemma lev_init_rows:
  "fold (\<lambda>i m. arrSet [] m i [Some i]) [0 ..< n] [] = map (\<lambda>i. [Some i]) [0 ..< n]"
  by (induction n) (simp_all add: arrSet_def)

lemma lev_init_row0:
  "fold (\<lambda>j m. setCell m 0 j (Some j)) [0 ..< Suc n] ([Some 0] # rest)
     = map Some [0 ..< Suc n] # rest"
  by (induction n) (simp_all add: setCell_def arrSet_def)

lemma length_levTable: "length (levTable str1 str2 i k) = Suc (length str2)"
  by (simp add: levTable_def)

lemma nth_levTable:
  "r \<le> length str2 \<Longrightarrow>
   levTable str1 str2 i k ! r =
     map (\<lambda>c. Some (editDistanceRec (take r str2) (take c str1)))
         [0 ..< Suc (if r < i then length str1 else if r = i then k else 0)]"
  by (simp add: levTable_def del: upt_Suc)


lemma getCell_levTable:
  "r \<le> length str2 \<Longrightarrow> c \<le> (if r < i then length str1 else if r = i then k else 0) \<Longrightarrow>
   getCell (levTable str1 str2 i k) r c = Some (editDistanceRec (take r str2) (take c str1))"
  by (simp add: getCell_def length_levTable nth_levTable del: upt_Suc)

lemma levTable_start:
  "fold (\<lambda>j m. setCell m 0 j (Some j)) [0 ..< Suc (length str1)]
     (fold (\<lambda>i m. arrSet [] m i [Some i]) [0 ..< Suc (length str2)] [])
   = levTable str1 str2 1 0"
proof -
  have "fold (\<lambda>i m. arrSet [] m i [Some i]) [0 ..< Suc (length str2)] []
          = [Some 0] # map (\<lambda>i. [Some i]) [1 ..< Suc (length str2)]"
    unfolding lev_init_rows by (simp add: upt_conv_Cons del: upt_Suc)
  then have "fold (\<lambda>j m. setCell m 0 j (Some j)) [0 ..< Suc (length str1)]
     (fold (\<lambda>i m. arrSet [] m i [Some i]) [0 ..< Suc (length str2)] [])
     = map Some [0 ..< Suc (length str1)] # map (\<lambda>i. [Some i]) [1 ..< Suc (length str2)]"
    by (simp only: lev_init_row0)
  also have "\<dots> = levTable str1 str2 1 0"
  proof (rule nth_equalityI)
    show "length (map Some [0 ..< Suc (length str1)] # map (\<lambda>i. [Some i]) [1 ..< Suc (length str2)])
            = length (levTable str1 str2 1 0)"
      by (simp add: length_levTable del: upt_Suc)
  next
    fix r assume "r < length (map Some [0 ..< Suc (length str1)] # map (\<lambda>i. [Some i]) [1 ..< Suc (length str2)])"
    then have r: "r \<le> length str2" by (simp del: upt_Suc)
    show "(map Some [0 ..< Suc (length str1)] # map (\<lambda>i. [Some i]) [1 ..< Suc (length str2)]) ! r
            = levTable str1 str2 1 0 ! r"
    proof (cases r)
      case 0
      then show ?thesis by (simp add: nth_levTable del: upt_Suc)
    next
      case (Suc r')
      then show ?thesis using r
        by (simp add: nth_levTable del: upt_Suc, simp add: editDistanceRec_Nil2)
    qed
  qed
  finally show ?thesis .
qed


lemma take_Suc_snoc: "i < length s \<Longrightarrow> take (Suc i) s = take i s @ [s ! i]"
  by (rule take_Suc_conv_app_nth)

lemma levTable_cell:
  assumes i: "i < length str2" and k: "k < length str1"
  shows "editDistanceRec (take (Suc i) str2) (take (Suc k) str1) =
     (if str2 ! i = str1 ! k then editDistanceRec (take i str2) (take k str1)
      else Suc (min (editDistanceRec (take i str2) (take k str1))
                    (min (editDistanceRec (take (Suc i) str2) (take k str1))
                         (editDistanceRec (take i str2) (take (Suc k) str1)))))"
  unfolding take_Suc_snoc [OF i] take_Suc_snoc [OF k]
  by (simp add: editDistanceRec_snoc min.commute del: editDistanceRec.simps)

lemma setCell_levTable:
  assumes i: "i \<le> length str2"
  shows "setCell (levTable str1 str2 i k) i (Suc k)
           (Some (editDistanceRec (take i str2) (take (Suc k) str1)))
         = levTable str1 str2 i (Suc k)"
proof (rule nth_equalityI)
  show "length (setCell (levTable str1 str2 i k) i (Suc k)
           (Some (editDistanceRec (take i str2) (take (Suc k) str1))))
        = length (levTable str1 str2 i (Suc k))"
    by (simp add: setCell_def length_levTable)
next
  fix r
  assume "r < length (setCell (levTable str1 str2 i k) i (Suc k)
           (Some (editDistanceRec (take i str2) (take (Suc k) str1))))"
  then have r: "r \<le> length str2" by (simp add: setCell_def length_levTable split: if_splits)
  show "setCell (levTable str1 str2 i k) i (Suc k)
           (Some (editDistanceRec (take i str2) (take (Suc k) str1))) ! r
        = levTable str1 str2 i (Suc k) ! r"
  proof (cases "r = i")
    case True
    then show ?thesis using i
      by (simp add: setCell_def length_levTable nth_levTable arrSet_def)
  next
    case False
    then show ?thesis using i r
      by (simp add: setCell_def length_levTable nth_levTable del: upt_Suc)
  qed
qed

lemma levStep_levTable:
  assumes i: "i < length str2" and k: "k < length str1"
  shows "html_levenshteinStep str1 str2 (Suc i) (Suc k) (levTable str1 str2 (Suc i) k)
         = levTable str1 str2 (Suc i) (Suc k)"
proof -
  have c1: "getCell (levTable str1 str2 (Suc i) k) i k
              = Some (editDistanceRec (take i str2) (take k str1))"
    using i k by (simp add: getCell_levTable)
  have c2: "getCell (levTable str1 str2 (Suc i) k) (Suc i) k
              = Some (editDistanceRec (take (Suc i) str2) (take k str1))"
    using i k by (simp add: getCell_levTable)
  have c3: "getCell (levTable str1 str2 (Suc i) k) i (Suc k)
              = Some (editDistanceRec (take i str2) (take (Suc k) str1))"
    using i k by (simp add: getCell_levTable)
  have ch: "(charAt str2 i = charAt str1 k) = (str2 ! i = str1 ! k)"
    using i k by (simp add: charAt_def)
  have s: "setCell (levTable str1 str2 (Suc i) k) (Suc i) (Suc k)
             (Some (editDistanceRec (take (Suc i) str2) (take (Suc k) str1)))
           = levTable str1 str2 (Suc i) (Suc k)"
    using i by (intro setCell_levTable) simp
  show ?thesis
    unfolding html_levenshteinStep_def
    by (simp add: c1 c2 c3 ch min3_def plus1_def levTable_cell [OF i k] s [symmetric]
          del: editDistanceRec.simps)
qed


lemma levInner_levTable:
  assumes i: "i < length str2"
  shows "k \<le> length str1 \<Longrightarrow>
         fold (html_levenshteinStep str1 str2 (Suc i)) [1 ..< Suc k] (levTable str1 str2 (Suc i) 0)
         = levTable str1 str2 (Suc i) k"
proof (induction k)
  case 0
  show ?case by simp
next
  case (Suc k)
  then have k: "k < length str1" by simp
  have "fold (html_levenshteinStep str1 str2 (Suc i)) [1 ..< Suc (Suc k)] (levTable str1 str2 (Suc i) 0)
        = html_levenshteinStep str1 str2 (Suc i) (Suc k)
            (fold (html_levenshteinStep str1 str2 (Suc i)) [1 ..< Suc k] (levTable str1 str2 (Suc i) 0))"
    by simp
  also have "\<dots> = html_levenshteinStep str1 str2 (Suc i) (Suc k) (levTable str1 str2 (Suc i) k)"
    using Suc.IH k by simp
  also have "\<dots> = levTable str1 str2 (Suc i) (Suc k)"
    by (rule levStep_levTable [OF i k])
  finally show ?case .
qed

lemma levTable_next_row:
  "levTable str1 str2 i (length str1) = levTable str1 str2 (Suc i) 0"
  unfolding levTable_def
  by (rule map_cong [OF refl]) (auto simp del: upt_Suc simp: editDistanceRec_Nil2)

lemma levOuter_levTable:
  "n \<le> length str2 \<Longrightarrow>
   fold (\<lambda>i m. fold (html_levenshteinStep str1 str2 i) [1 ..< Suc (length str1)] m)
        [1 ..< Suc n] (levTable str1 str2 1 0)
   = levTable str1 str2 (Suc n) 0"
proof (induction n)
  case 0
  show ?case by simp
next
  case (Suc n)
  then have n: "n < length str2" by simp
  have "fold (\<lambda>i m. fold (html_levenshteinStep str1 str2 i) [1 ..< Suc (length str1)] m)
             [1 ..< Suc (Suc n)] (levTable str1 str2 1 0)
        = fold (html_levenshteinStep str1 str2 (Suc n)) [1 ..< Suc (length str1)]
            (fold (\<lambda>i m. fold (html_levenshteinStep str1 str2 i) [1 ..< Suc (length str1)] m)
               [1 ..< Suc n] (levTable str1 str2 1 0))"
    by simp
  also have "\<dots> = fold (html_levenshteinStep str1 str2 (Suc n)) [1 ..< Suc (length str1)]
                     (levTable str1 str2 (Suc n) 0)"
    using Suc.IH n by simp
  also have "\<dots> = levTable str1 str2 (Suc n) (length str1)"
    by (rule levInner_levTable [OF n le_refl])
  also have "\<dots> = levTable str1 str2 (Suc (Suc n)) 0"
    by (rule levTable_next_row)
  finally show ?case .
qed

lemma html_levenshteinDistance_rec:
  "html_levenshteinDistance str1 str2 = Some (editDistanceRec str2 str1)"
proof -
  have "html_levenshteinDistance str1 str2
          = getCell (levTable str1 str2 (Suc (length str2)) 0) (length str2) (length str1)"
    unfolding html_levenshteinDistance_def Let_def levTable_start
    by (simp only: levOuter_levTable [OF le_refl])
  also have "\<dots> = Some (editDistanceRec (take (length str2) str2) (take (length str1) str1))"
    by (rule getCell_levTable) simp_all
  finally show ?thesis by simp
qed

lemma css_levenshteinStep_eq: "css_levenshteinStep = html_levenshteinStep"
  by (intro ext) (simp add: css_levenshteinStep_def html_levenshteinStep_def)

lemma css_levenshteinDistance_eq: "css_levenshteinDistance str1 str2 = html_levenshteinDistance str1 str2"
  by (simp add: css_levenshteinDistance_def html_levenshteinDistance_def css_levenshteinStep_eq)

text \<open>
  Claim C10. The Levenshtein routine of the HTML validator and the one of the
  CSS validator compute the same function: on every pair of strings both return
  the same number, and that number is the classic edit distance of the two
  strings (the least number of insertions, deletions and substitutions).
\<close>

theorem levenshtein_same_and_classic:
  "html_levenshteinDistance s t = css_levenshteinDistance s t \<and>
   css_levenshteinDistance s t = Some (classic_edit_distance s t)"
  by (simp add: css_levenshteinDistance_eq html_levenshteinDistance_rec
        classic_edit_distance_rec editDistanceRec_sym [of s t])

section \<open>The HTML lookup index and case\<close>

lemma lowerChar_idem: "lowerChar (lowerChar c) = lowerChar c"
proof -
  let ?n = "of_char c :: nat"
  have lt: "?n < 256" by (rule nat_of_char_less_256)
  show ?thesis
  proof (cases "(65 \<le> ?n \<and> ?n \<le> 90) \<or> (192 \<le> ?n \<and> ?n \<le> 222 \<and> ?n \<noteq> 215)")
    case True
    then have l: "lowerChar c = char_of (?n + 32)" by (auto simp add: lowerChar_def Let_def)
    have v: "(of_char (char_of (?n + 32) :: char) :: nat) = ?n + 32"
      using True by (auto simp add: of_char_of)
    show ?thesis unfolding l using True v by (auto simp: lowerChar_def Let_def)
  next
    case False
    then have "lowerChar c = c" by (auto simp add: lowerChar_def Let_def)
    then show ?thesis by simp
  qed
qed

lemma toLowerCase_idem: "toLowerCase (toLowerCase s) = toLowerCase s"
  by (simp add: toLowerCase_def lowerChar_idem)

text \<open>
  Every lookup lowercases the name it is given: for every index and every query
  string \<open>s\<close>, \<open>validateElement(s)\<close> and \<open>validateElement(lowercase(s))\<close> return
  equal results, and so does \<open>getElementInfo\<close>.
\<close>

lemma validateElement_case_insensitive_query:
  "html_validateElement v s = html_validateElement v (toLowerCase s) \<and>
   html_getElementInfo v s = html_getElementInfo v (toLowerCase s)"
  by (simp add: html_validateElement_def html_getElementInfo_def toLowerCase_idem)

text \<open>
  Claim C7 (a defect of the code). The claim has element names lowercased when
  the lookup index is built as well as before every lookup, so that \<open>div\<close> and
  \<open>DIV\<close> resolve to the same record. \<open>_initializeData\<close> is the one place that
  does not lowercase: it stores an element under the name the data give it.
  From a dataset whose one element is named \<open>DIV\<close> the index gets the key
  \<open>DIV\<close>, and then \<open>validateElement("DIV")\<close> and \<open>validateElement("div")\<close>
  both look \<open>div\<close> up and resolve to no record, although the element is in
  the index.
\<close>

theorem index_keeps_uppercase_names:
  "mapKeys (hv_elements (newHTMLValidator (Some \<lparr>hd_elements = Some [exDIV]\<rparr>))) = [''DIV''] \<and>
   html_validateElement (newHTMLValidator (Some \<lparr>hd_elements = Some [exDIV]\<rparr>)) ''DIV''
     = \<lparr>er_isValid = False, er_element = None, er_suggestions = []\<rparr> \<and>
   html_validateElement (newHTMLValidator (Some \<lparr>hd_elements = Some [exDIV]\<rparr>)) ''div''
     = \<lparr>er_isValid = False, er_element = None, er_suggestions = []\<rparr>"
  by code_simp

section \<open>Global attributes\<close>

lemma startsWith_toLowerCase:
  "startsWith s p \<Longrightarrow> toLowerCase p = p \<Longrightarrow> startsWith (toLowerCase s) p"
proof -
  assume a: "startsWith s p" and b: "toLowerCase p = p"
  have "take (length p) (toLowerCase s) = toLowerCase (take (length p) s)"
    by (simp add: toLowerCase_def take_map)
  also have "\<dots> = p" using a b by (simp add: startsWith_def)
  finally show ?thesis by (simp add: startsWith_def)
qed

lemma toLowerCase_data: "toLowerCase ''data-'' = ''data-''"
  by (simp add: toLowerCase_def lowerChar_def)

lemma toLowerCase_aria: "toLowerCase ''aria-'' = ''aria-''"
  by (simp add: toLowerCase_def lowerChar_def)

lemma toLowerCase_globalAttributes:
  "a \<in> set globalAttributes \<Longrightarrow> toLowerCase a = a"
  unfolding globalAttributes_def
  by (auto simp add: toLowerCase_def lowerChar_def)

lemma isGlobalAttribute_toLowerCase:
  assumes "startsWith a ''data-'' \<or> startsWith a ''aria-'' \<or> a \<in> set globalAttributes"
  shows "html_isGlobalAttribute (toLowerCase a)"
  using assms
  by (auto simp add: html_isGlobalAttribute_def toLowerCase_globalAttributes
        startsWith_toLowerCase toLowerCase_data toLowerCase_aria)

text \<open>
  When the lookup of the lowercased element name finds an element, every
  attribute name that starts with \<open>data-\<close> or \<open>aria-\<close> or is one of the fixed
  global attribute names gets \<open>isValid = true\<close> and \<open>isGlobal = true\<close>, whether
  or not the attribute is in the element's own list.
\<close>

lemma global_attributes_always_valid:
  assumes "mapGet (hv_elements v) (toLowerCase elementName) = Some element"
    and "startsWith attributeName ''data-'' \<or> startsWith attributeName ''aria-'' \<or>
         attributeName \<in> set globalAttributes"
  shows "ar_isValid (html_validateAttribute v elementName attributeName) = True \<and>
         ar_isGlobal (html_validateAttribute v elementName attributeName) = Some True"
  using assms(1) isGlobalAttribute_toLowerCase [OF assms(2)]
  by (simp add: html_validateAttribute_def Let_def)

lemma exDiv_index:
  "mapGet (hv_elements (newHTMLValidator (Some \<lparr>hd_elements = Some [exDiv]\<rparr>))) (toLowerCase ''DIV'')
     = Some exDiv"
  by (simp add: newHTMLValidator_def html_initializeData_def html_indexElement_def
        html_indexAttribute_def exDiv_def mapGet_def mapHas_def toLowerCase_def lowerChar_def
        Let_def char_of_eq_iff)

lemma global_attributes_of_exDiv:
  "mapGet (hv_elements (newHTMLValidator (Some \<lparr>hd_elements = Some [exDiv]\<rparr>))) (toLowerCase ''DIV'')
     = Some exDiv \<and>
   startsWith ''data-Role'' ''data-'' \<and>
   ar_isValid (html_validateAttribute (newHTMLValidator (Some \<lparr>hd_elements = Some [exDiv]\<rparr>))
                 ''DIV'' ''data-Role'') = True \<and>
   ar_isGlobal (html_validateAttribute (newHTMLValidator (Some \<lparr>hd_elements = Some [exDiv]\<rparr>))
                 ''DIV'' ''data-Role'') = Some True"
proof -
  have s: "startsWith ''data-Role'' ''data-''" by (simp add: startsWith_def)
  then have h: "startsWith ''data-Role'' ''data-'' \<or> startsWith ''data-Role'' ''aria-'' \<or>
         ''data-Role'' \<in> set globalAttributes" by simp
  show ?thesis
    using global_attributes_always_valid [OF exDiv_index h] exDiv_index s by simp
qed

text \<open>
  Claim C9 (a defect of the code). The claim has every global attribute valid on
  every element present in the index. An element is present under the name the
  data give it, but \<open>validateAttribute\<close> looks the lowercased name up: with the
  element \<open>DIV\<close> in the index, \<open>validateAttribute("DIV", "id")\<close> finds no
  element and answers \<open>isValid = false\<close>, with the reason "Unknown element: DIV" and
  no \<open>isGlobal\<close> field, although \<open>id\<close> is a global attribute.
\<close>

theorem global_attribute_of_indexed_DIV_rejected:
  "mapGet (hv_elements (newHTMLValidator (Some \<lparr>hd_elements = Some [exDIV]\<rparr>))) ''DIV''
     = Some exDIV \<and>
   html_isGlobalAttribute (toLowerCase ''id'') \<and>
   html_validateAttribute (newHTMLValidator (Some \<lparr>hd_elements = Some [exDIV]\<rparr>)) ''DIV'' ''id''
     = \<lparr>ar_isValid = False, ar_reason = Some ''Unknown element: DIV'', ar_isGlobal = None,
        ar_attribute = None, ar_suggestions = []\<rparr>"
  by code_simp

section \<open>Suggestions\<close>

lemma subseq_take_filter: "subseq (take n (filter P xs)) xs"
  by (rule subseq_order.trans [OF prefix_imp_subseq [OF take_is_prefix] subseq_filter_left])

lemma css_similarIn_distance:
  "(n, dd, c) \<in> set (css_similarIn ql entry) \<Longrightarrow>
   dd = classic_edit_distance ql (toLowerCase n)"
  by (auto simp add: css_similarIn_def css_levenshteinDistance_eq html_levenshteinDistance_rec
        classic_edit_distance_rec editDistanceRec_sym [of ql] split: if_splits)

lemma css_sorted_names:
  assumes "\<And>n dd c. (n, dd, c) \<in> set S \<Longrightarrow> dd = D n"
  shows "sorted (map D (map fst (take k (sort_key (\<lambda>s. fst (snd s)) S))))"
proof -
  let ?T = "take k (sort_key (\<lambda>s. fst (snd s)) S)"
  have sub: "set ?T \<subseteq> set S" using set_take_subset [of k "sort_key (\<lambda>s. fst (snd s)) S"] by simp
  have "map D (map fst ?T) = map (\<lambda>s. fst (snd s)) ?T"
  proof (simp, intro ballI)
    fix x assume "x \<in> set ?T"
    then have "x \<in> set S" using sub by blast
    then show "D (fst x) = fst (snd x)" using assms [of "fst x" "fst (snd x)" "snd (snd x)"] by simp
  qed
  also have "\<dots> = take k (map (\<lambda>s. fst (snd s)) (sort_key (\<lambda>s. fst (snd s)) S))"
    by (simp add: take_map)
  finally show ?thesis by (simp add: sorted_wrt_take)
qed

text \<open>
  Claim C8, as amended. A list of suggestions that the JavaScript validator
  returns for an object, a keyword or a method holds the first 3 names, in the
  order in which the collection enumerates them (the methods of an object before
  its static methods), that agree with the query in more than half of the
  positions, both in lowercase; that is at most 3 names. For an element the
  HTML validator returns the first 5 names of the index, in the order of the
  index, whose similarity to the query exceeds 0.6; that is at most 5 names.
  Neither list is ordered by score. A list of suggestions that the CSS
  validator returns for a property holds at most 5 names, in ascending order of
  the edit distance between the query and the name, both in lowercase.
\<close>

theorem suggestions_bounded:
  "(js_findSimilarObjects \<lparr>jv_data = Some d\<rparr> q = Inr sug \<longrightarrow>
      sug = take 3 (filter (\<lambda>name. js_calculateSimilarity (toLowerCase q) (toLowerCase name)
                                      > 1 / 2)
                           (keysOr (jd_objects d))) \<and>
      length sug \<le> 3) \<and>
   (js_findSimilarKeywords \<lparr>jv_data = Some d\<rparr> q = Inr sug \<longrightarrow>
      sug = take 3 (filter (\<lambda>name. js_calculateSimilarity (toLowerCase q) (toLowerCase name)
                                      > 1 / 2)
                           (keysOr (jd_keywords d))) \<and>
      length sug \<le> 3) \<and>
   js_findSimilarMethods methods statics q
     = take 3 (filter (\<lambda>name. js_calculateSimilarity (toLowerCase q) (toLowerCase name) > 1 / 2)
                      (keys methods @ keys statics)) \<and>
   length (js_findSimilarMethods methods statics q) \<le> 3 \<and>
   html_getSuggestions hv q
     = take 5 (filter (\<lambda>name. numGreater (html_calculateSimilarity q name) (6 / 10))
                      (mapKeys (hv_elements hv))) \<and>
   length (html_getSuggestions hv q) \<le> 5 \<and>
   (css_findSimilarProperties cv q = Inr sug \<longrightarrow>
      length sug \<le> 5 \<and>
      sorted (map (\<lambda>n. classic_edit_distance (toLowerCase q) (toLowerCase n)) sug))"
proof (intro conjI impI)
  assume "js_findSimilarObjects \<lparr>jv_data = Some d\<rparr> q = Inr sug"
  then show "sug = take 3 (filter (\<lambda>name. js_calculateSimilarity (toLowerCase q) (toLowerCase name)
                                             > 1 / 2)
                                  (keysOr (jd_objects d)))"
    "length sug \<le> 3"
    by (auto simp add: js_findSimilarObjects_def keysOr_def split: option.splits)
next
  assume "js_findSimilarKeywords \<lparr>jv_data = Some d\<rparr> q = Inr sug"
  then show "sug = take 3 (filter (\<lambda>name. js_calculateSimilarity (toLowerCase q) (toLowerCase name)
                                             > 1 / 2)
                                  (keysOr (jd_keywords d)))"
    "length sug \<le> 3"
    by (auto simp add: js_findSimilarKeywords_def keysOr_def split: option.splits)
next
  show "js_findSimilarMethods methods statics q
     = take 3 (filter (\<lambda>name. js_calculateSimilarity (toLowerCase q) (toLowerCase name) > 1 / 2)
                      (keys methods @ keys statics))"
    unfolding js_findSimilarMethods_def Let_def by (rule refl)
  show "length (js_findSimilarMethods methods statics q) \<le> 3"
    by (simp add: js_findSimilarMethods_def Let_def)
  show "html_getSuggestions hv q
     = take 5 (filter (\<lambda>name. numGreater (html_calculateSimilarity q name) (6 / 10))
                      (mapKeys (hv_elements hv)))"
    unfolding html_getSuggestions_def by (rule refl)
  show "length (html_getSuggestions hv q) \<le> 5"
    by (simp add: html_getSuggestions_def)
next
  assume a: "css_findSimilarProperties cv q = Inr sug"
  then obtain properties where p: "css_propertiesOf cv = Inr properties"
    by (cases "css_propertiesOf cv") (simp_all add: css_findSimilarProperties_def)
  let ?S = "concat (map (css_similarIn (toLowerCase q)) properties)"
  have sug: "sug = map fst (take 5 (sort_key (\<lambda>s. fst (snd s)) ?S))"
    using a p by (simp add: css_findSimilarProperties_def Let_def)
  show "length sug \<le> 5" unfolding sug by simp
  have "sorted (map (\<lambda>n. classic_edit_distance (toLowerCase q) (toLowerCase n))
                    (map fst (take 5 (sort_key (\<lambda>s. fst (snd s)) ?S))))"
    by (rule css_sorted_names) (auto dest: css_similarIn_distance)
  then show "sorted (map (\<lambda>n. classic_edit_distance (toLowerCase q) (toLowerCase n)) sug)"
    unfolding sug .
qed

lemma exCss_distances:
  "css_levenshteinDistance ''tap'' ''gaps'' = Some 2"
  "css_levenshteinDistance ''tap'' ''border'' = Some 6"
  "css_levenshteinDistance ''tap'' ''top'' = Some 1"
  by (simp_all add: css_levenshteinDistance_eq html_levenshteinDistance_rec)

lemma exCss_suggestions: "css_findSimilarProperties exCss ''tap'' = Inr [''top'', ''gaps'']"
  by (simp add: css_findSimilarProperties_def css_propertiesOf_def exCss_def css_similarIn_def
        keys_def Let_def toLowerCase_def lowerChar_def exCss_distances)

lemma exArrays_suggestions: "js_findSimilarObjects exArrays ''Arra'' = Inr [''Arrays'', ''Array'']"
  by code_simp

theorem suggestions_bounded_witness:
  "js_findSimilarObjects exArrays ''Arra'' = Inr [''Arrays'', ''Array''] \<and>
   [''Arrays'', ''Array'']
     = take 3 (filter (\<lambda>name. js_calculateSimilarity (toLowerCase ''Arra'') (toLowerCase name)
                                 > 1 / 2)
                      (keysOr (jd_objects (exData [(''Arrays'', exObject ''Arrays'' [] []),
                                                   (''Array'', exObject ''Array'' [] [])])))) \<and>
   length [''Arrays'', ''Array''] \<le> 3 \<and>
   css_findSimilarProperties exCss ''tap'' = Inr [''top'', ''gaps''] \<and>
   length [''top'', ''gaps''] \<le> 5 \<and>
   sorted (map (\<lambda>n. classic_edit_distance (toLowerCase ''tap'') (toLowerCase n))
               [''top'', ''gaps''])"
proof -
  let ?d = "exData [(''Arrays'', exObject ''Arrays'' [] []), (''Array'', exObject ''Array'' [] [])]"
  have j: "js_findSimilarObjects \<lparr>jv_data = Some ?d\<rparr> ''Arra'' = Inr [''Arrays'', ''Array'']"
    using exArrays_suggestions by (simp only: exArrays_def)
  have a: "[''Arrays'', ''Array'']
             = take 3 (filter (\<lambda>name. js_calculateSimilarity (toLowerCase ''Arra'')
                                          (toLowerCase name) > 1 / 2)
                              (keysOr (jd_objects ?d))) \<and>
           length [''Arrays'', ''Array''] \<le> 3"
    using suggestions_bounded [of ?d "''Arra''" "[''Arrays'', ''Array'']", THEN conjunct1] j
    by (rule mp)
  have b: "length [''top'', ''gaps''] \<le> 5 \<and>
           sorted (map (\<lambda>n. classic_edit_distance (toLowerCase ''tap'') (toLowerCase n))
                       [''top'', ''gaps''])"
    using suggestions_bounded [of _ "''tap''" "[''top'', ''gaps'']" _ _ _ exCss,
            THEN conjunct2, THEN conjunct2, THEN conjunct2, THEN conjunct2, THEN conjunct2,
            THEN conjunct2] exCss_suggestions
    by (rule mp)
  show ?thesis using exArrays_suggestions a exCss_suggestions b
    by (intro conjI) (elim conjE, assumption)+
qed

text \<open>
  The claim as stated has every list sorted with the best match first. With
  the objects \<open>Arrays\<close> and \<open>Array\<close>, in this order, the query \<open>Arra\<close> gets
  \<open>Arrays\<close> before \<open>Array\<close>, although \<open>Array\<close> scores higher: the JavaScript
  validator filters and cuts, and does not sort.
\<close>

theorem suggestions_not_best_first:
  "js_findSimilarObjects exArrays ''Arra'' = Inr [''Arrays'', ''Array''] \<and>
   js_calculateSimilarity (toLowerCase ''Arra'') (toLowerCase ''Arrays'')
     < js_calculateSimilarity (toLowerCase ''Arra'') (toLowerCase ''Array'')"
  by code_simp

section \<open>Methods of an object\<close>

lemma in_take_append:
  "length A < n \<Longrightarrow> x \<in> set (take n (A @ x # B))"
  by (cases "n - length A") simp_all

lemma flatMap_similar:
  "js_calculateSimilarity (toLowerCase ''flatMix'') (toLowerCase ''flatMap'') > 1 / 2"
  by code_simp

lemma flatMix_not_inherited: "''flatMix'' \<notin> set objectPrototypeNames"
  by (simp add: objectPrototypeNames_def)

lemma map_not_inherited: "''map'' \<notin> set objectPrototypeNames"
  by (simp add: objectPrototypeNames_def)

lemma getProp_Absent:
  "map_of obj key = None \<Longrightarrow> key \<notin> set objectPrototypeNames \<Longrightarrow> getProp obj key = Absent"
  by (simp add: getProp_def)

text \<open>
  Claim C5, as amended. In a dataset whose object \<open>Array\<close> has the instance
  method \<open>map\<close> (and no static method of that name) and the static method
  \<open>isArray\<close>: \<open>validateMethod("Array", "map")\<close> finds the record with
  \<open>isStatic = false\<close>; \<open>validateMethod("Array", "isArray")\<close> finds it with
  \<open>isStatic = true\<close>; for a parent name that is no key of the objects
  collection and is none of the names that every object inherits from
  \<open>Object.prototype\<close>, the result carries the \<open>error\<close> field
  "Object '...' not found", which the results for \<open>Array\<close> do not have; and
  \<open>validateMethod("Array", "flatMix")\<close> reports that the method does not exist
  and suggests \<open>flatMap\<close> provided that \<open>flatMap\<close> is itself a method of \<open>Array\<close>
  and fewer than three of the method names enumerated before it (instance
  methods first) agree with \<open>flatmix\<close> in more than half of the positions.
  The inherited names are left out because the code does not treat them as
  unknown: see the second half of the counterexample below.
\<close>

theorem existsChild_scenario:
  assumes d: "jv_data v = Some d" and o: "jd_objects d = Some objects"
    and arr: "map_of objects ''Array'' = Some array"
    and ms: "obj_methods array = Some methods"
    and ss: "obj_staticMethods array = Some statics"
    and m1: "map_of methods ''map'' = Some m"
    and m2: "map_of statics ''map'' = None"
    and s1: "map_of statics ''isArray'' = Some st"
  shows "(\<exists>r. js_validateMethod v ''Array'' ''map'' = Inr r \<and> mr_exists r \<and>
              mr_method r = Some (Own m) \<and> mr_isStatic r = Some False \<and> mr_error r = None) \<and>
         (\<exists>r. js_validateMethod v ''Array'' ''isArray'' = Inr r \<and> mr_exists r \<and>
              mr_isStatic r = Some True \<and> mr_error r = None) \<and>
         (map_of objects parent = None \<and> parent \<notin> set objectPrototypeNames \<longrightarrow>
            (\<exists>r. js_validateMethod v parent child = Inr r \<and> \<not> mr_exists r \<and>
                 mr_error r = Some (''Object '' @ [CHR 0x27] @ parent @ [CHR 0x27] @ '' not found''))) \<and>
         (map_of methods ''flatMix'' = None \<and> map_of statics ''flatMix'' = None \<and>
          keys methods @ keys statics = before @ ''flatMap'' # after \<and>
          length (filter (\<lambda>name. js_calculateSimilarity (toLowerCase ''flatMix'') (toLowerCase name) > 1 / 2)
                         before) < 3 \<longrightarrow>
            (\<exists>r sug. js_validateMethod v ''Array'' ''flatMix'' = Inr r \<and> \<not> mr_exists r \<and>
                     mr_error r = None \<and> mr_suggestion r = Some sug \<and> ''flatMap'' \<in> set sug))"
proof (intro conjI impI)
  show "\<exists>r. js_validateMethod v ''Array'' ''map'' = Inr r \<and> mr_exists r \<and>
              mr_method r = Some (Own m) \<and> mr_isStatic r = Some False \<and> mr_error r = None"
    using d o arr ms ss m1 m2 map_not_inherited
    by (simp add: js_validateMethod_def getProp_def Let_def)
next
  show "\<exists>r. js_validateMethod v ''Array'' ''isArray'' = Inr r \<and> mr_exists r \<and>
              mr_isStatic r = Some True \<and> mr_error r = None"
    using d o arr ms ss s1
    by (simp add: js_validateMethod_def getProp_def Let_def)
next
  assume "map_of objects parent = None \<and> parent \<notin> set objectPrototypeNames"
  then have "getProp objects parent = Absent"
    by (simp add: getProp_Absent)
  then show "\<exists>r. js_validateMethod v parent child = Inr r \<and> \<not> mr_exists r \<and>
      mr_error r = Some (''Object '' @ [CHR 0x27] @ parent @ [CHR 0x27] @ '' not found'')"
    using d o by (simp add: js_validateMethod_def js_findSimilarObjects_def)
next
  assume a: "map_of methods ''flatMix'' = None \<and> map_of statics ''flatMix'' = None \<and>
          keys methods @ keys statics = before @ ''flatMap'' # after \<and>
          length (filter (\<lambda>name. js_calculateSimilarity (toLowerCase ''flatMix'') (toLowerCase name) > 1 / 2)
                         before) < 3"
  let ?P = "\<lambda>name. js_calculateSimilarity (toLowerCase ''flatMix'') (toLowerCase name) > 1 / 2"
  have f: "filter ?P (keys methods @ keys statics)
             = filter ?P before @ ''flatMap'' # filter ?P after"
    using a flatMap_similar by simp
  have "''flatMap'' \<in> set (take 3 (filter ?P before @ ''flatMap'' # filter ?P after))"
    using a by (intro in_take_append) simp
  then have "''flatMap'' \<in> set (js_findSimilarMethods methods statics ''flatMix'')"
    unfolding js_findSimilarMethods_def Let_def f .
  then show "\<exists>r sug. js_validateMethod v ''Array'' ''flatMix'' = Inr r \<and> \<not> mr_exists r \<and>
                     mr_error r = None \<and> mr_suggestion r = Some sug \<and> ''flatMap'' \<in> set sug"
    using d o arr ms ss a flatMix_not_inherited
    by (simp add: js_validateMethod_def getProp_def Let_def)
qed

theorem existsChild_scenario_witness:
  "(\<exists>r. js_validateMethod exArrayFull ''Array'' ''map'' = Inr r \<and> mr_exists r \<and>
        mr_method r = Some (Own (exMember ''map'' False)) \<and> mr_isStatic r = Some False \<and>
        mr_error r = None) \<and>
   (\<exists>r. js_validateMethod exArrayFull ''Array'' ''isArray'' = Inr r \<and> mr_exists r \<and>
        mr_isStatic r = Some True \<and> mr_error r = None) \<and>
   (\<exists>r. js_validateMethod exArrayFull ''Widget'' ''map'' = Inr r \<and> \<not> mr_exists r \<and>
        mr_error r = Some (''Object '' @ [CHR 0x27] @ ''Widget'' @ [CHR 0x27] @ '' not found'')) \<and>
   (\<exists>r sug. js_validateMethod exArrayFull ''Array'' ''flatMix'' = Inr r \<and> \<not> mr_exists r \<and>
        mr_error r = None \<and> mr_suggestion r = Some sug \<and> ''flatMap'' \<in> set sug)"
proof -
  have d: "jv_data exArrayFull = Some (exData [(''Array'', exArrayObject)])"
    by (simp add: exArrayFull_def exArrayObject_def)
  have o: "jd_objects (exData [(''Array'', exArrayObject)]) = Some [(''Array'', exArrayObject)]"
    by (simp add: exData_def)
  have arr: "map_of [(''Array'', exArrayObject)] ''Array'' = Some exArrayObject" by simp
  have ms: "obj_methods exArrayObject
              = Some [(''map'', exMember ''map'' False), (''flat'', exMember ''flat'' False),
                      (''flatMap'', exMember ''flatMap'' False)]"
    by (simp add: exArrayObject_def exObject_def)
  have ss: "obj_staticMethods exArrayObject = Some [(''isArray'', exMember ''isArray'' True)]"
    by (simp add: exArrayObject_def exObject_def)
  have m1: "map_of [(''map'', exMember ''map'' False), (''flat'', exMember ''flat'' False),
                    (''flatMap'', exMember ''flatMap'' False)] ''map'' = Some (exMember ''map'' False)"
    by simp
  have m2: "map_of [(''isArray'', exMember ''isArray'' True)] ''map'' = None" by simp
  have s1: "map_of [(''isArray'', exMember ''isArray'' True)] ''isArray''
              = Some (exMember ''isArray'' True)" by simp
  have p: "map_of [(''Array'', exArrayObject)] ''Widget'' = None \<and>
           ''Widget'' \<notin> set objectPrototypeNames"
    by (simp add: objectPrototypeNames_def)
  have f: "map_of [(''map'', exMember ''map'' False), (''flat'', exMember ''flat'' False),
                   (''flatMap'', exMember ''flatMap'' False)] ''flatMix'' = None \<and>
           map_of [(''isArray'', exMember ''isArray'' True)] ''flatMix'' = None \<and>
           keys [(''map'', exMember ''map'' False), (''flat'', exMember ''flat'' False),
                 (''flatMap'', exMember ''flatMap'' False)]
             @ keys [(''isArray'', exMember ''isArray'' True)]
             = [''map'', ''flat''] @ ''flatMap'' # [''isArray''] \<and>
           length (filter (\<lambda>name. js_calculateSimilarity (toLowerCase ''flatMix'') (toLowerCase name) > 1 / 2)
                          [''map'', ''flat'']) < 3"
    by (simp add: keys_def)
  show ?thesis
    using existsChild_scenario [OF d o arr ms ss m1 m2 s1,
            of "''Widget''" "''map''" "[''map'', ''flat'']" "[''isArray'']"] p f
    by blast
qed

text \<open>
  The claim as stated fails twice on the dataset whose \<open>Array\<close> has the methods
  \<open>map\<close> and \<open>isArray\<close> only. It promises the suggestion \<open>flatMap\<close>, but
  suggestions are drawn from the methods the object has, and the list is empty.
  It promises the "parent not found" result for every unknown parent, but for
  the unknown parent \<open>toString\<close> the lookup \<open>this.data.objects[objectName]\<close>
  gives the function that every object inherits, the test \<open>!object\<close> lets it
  pass, and reading \<open>object.methods[methodName]\<close> throws a \<open>TypeError\<close>.
\<close>

theorem flatMix_without_flatMap:
  "js_validateMethod exArrayOnly ''Array'' ''flatMix'' =
     Inr \<lparr>mr_exists = False, mr_error = None, mr_method = Some Absent,
          mr_isStatic = Some False, mr_suggestion = Some []\<rparr> \<and>
   ''toString'' \<notin> set (keysOr (jd_objects (exData
       [(''Array'', exObject ''Array'' [(''map'', exMember ''map'' False)]
                                       [(''isArray'', exMember ''isArray'' True)])]))) \<and>
   js_validateMethod exArrayOnly ''toString'' ''map'' = Inl TypeError"
  by code_simp

section \<open>Queries before initialization\<close>

text \<open>
  Claim C6 (a defect of the code). The CSS validator is created with
  \<open>data = null\<close>. On such a validator \<open>validateProperty\<close> throws the explicit
  "not initialized" error, but \<open>validateFunction\<close>, which has no such test,
  throws a \<open>TypeError\<close> from reading \<open>this.data.categories\<close>.
\<close>

theorem uninitialized_validateFunction_throws_TypeError:
  "css_validateFunction \<lparr>cv_data = None\<rparr> functionName = Inl TypeError \<and>
   css_validateProperty \<lparr>cv_data = None\<rparr> functionName = Inl (NotInitialized css_notInitialized)"
  by (simp add: css_validateFunction_def css_validateProperty_def css_functionsOf_def)

section \<open>The findings of the data validators\<close>

lemma errors_pushError [simp]: "errors (pushError m s) = errors s @ [m]"
  by (simp add: pushError_def)

lemma warnings_pushError [simp]: "warnings (pushError m s) = warnings s"
  by (simp add: pushError_def)

lemma errors_pushWarning [simp]: "errors (pushWarning m s) = errors s"
  by (simp add: pushWarning_def)

lemma warnings_pushWarning [simp]: "warnings (pushWarning m s) = warnings s @ [m]"
  by (simp add: pushWarning_def)

lemma errors_fold_pushError:
  "errors (fold (\<lambda>x s. if P x then pushError (f x) s else s) xs s)
     = errors s @ map f (filter P xs)"
  by (induction xs arbitrary: s) simp_all

lemma errors_if_pushError:
  "errors (if c then pushError m s else s) = errors s @ (if c then [m] else [])"
  by simp


section \<open>The metadata totals\<close>








section \<open>References and duplicate methods\<close>







lemma indexOf_notin: "x \<notin> set xs \<Longrightarrow> indexOf xs x = - 1"
  by (induction xs) auto
















text \<open>
  Claim C4 (a defect of the code). The claim has one error for every name that
  a category lists among its objects and that is not a key of the objects
  collection. The code tests \<open>!this.data.objects[objectName]\<close>, which reads
  inherited properties as well: the category \<open>Core\<close> lists \<open>Widget\<close> and
  \<open>constructor\<close>, the only key of the objects collection is \<open>Array\<close>, and the
  only error is the one about \<open>Widget\<close>.
\<close>

theorem inherited_name_is_no_dangling_reference:
  "jd_categories exDangling
     = Some [(''Core'', \<lparr>cat_name = Some ''Core'', cat_subcategories = Some [],
                         cat_objects = Some [(''Widget'', ()), (''constructor'', ())],
                         cat_keywords = Some []\<rparr>)] \<and>
   keysOr (jd_objects exDangling) = [''Array''] \<and>
   js_validateConsistency exDangling \<lparr>errors = [], warnings = []\<rparr>
     = Finished \<lparr>errors = [''Category Core references non-existent object: Widget''],
                 warnings = []\<rparr>"
  by code_simp

section \<open>The result of a validation\<close>

text \<open>
  The errors only grow: what a rule group has recorded stays a prefix of the
  list until the run ends, whether it finishes or is cut short.
\<close>

lemma g_pushError: "prefix (errors s) (errors t) \<Longrightarrow> prefix (errors s) (errors (pushError m t))"
  using prefix_order.trans [of "errors s" "errors t" "errors t @ [m]"] by simp

lemma g_pushWarning: "prefix (errors s) (errors t) \<Longrightarrow> prefix (errors s) (errors (pushWarning m t))"
  by simp

lemma g_if:
  "prefix (errors s) (errors a) \<Longrightarrow> prefix (errors s) (errors b) \<Longrightarrow>
   prefix (errors s) (errors (if c then a else b))"
  by simp

lemma g_Let:
  "prefix (errors s) (errors t) \<Longrightarrow> (\<And>x. prefix (errors s) (errors x) \<Longrightarrow> prefix (errors s) (errors (f x))) \<Longrightarrow>
   prefix (errors s) (errors (Let t f))"
  by simp

lemma g_case_option:
  "prefix (errors s) (errors a) \<Longrightarrow> (\<And>x. prefix (errors s) (errors (b x))) \<Longrightarrow>
   prefix (errors s) (errors (case opt of None \<Rightarrow> a | Some x \<Rightarrow> b x))"
  by (cases opt) simp_all

lemma g_fold:
  "prefix (errors s) (errors t) \<Longrightarrow> (\<And>x u. prefix (errors s) (errors u) \<Longrightarrow> prefix (errors s) (errors (f x u))) \<Longrightarrow>
   prefix (errors s) (errors (fold f xs t))"
  by (induction xs arbitrary: t) simp_all

lemma q_Finished: "prefix (errors s) (errors t) \<Longrightarrow> prefix (errors s) (errors (findings (Finished t)))"
  by (simp add: findings_def)

lemma q_Crashed: "prefix (errors s) (errors t) \<Longrightarrow> prefix (errors s) (errors (findings (Crashed e t)))"
  by (simp add: findings_def)

lemma q_if:
  "prefix (errors s) (errors (findings a)) \<Longrightarrow> prefix (errors s) (errors (findings b)) \<Longrightarrow>
   prefix (errors s) (errors (findings (if c then a else b)))"
  by simp

lemma q_Let:
  "prefix (errors s) (errors t) \<Longrightarrow>
   (\<And>x. prefix (errors s) (errors x) \<Longrightarrow> prefix (errors s) (errors (findings (f x)))) \<Longrightarrow>
   prefix (errors s) (errors (findings (Let t f)))"
  by simp

lemma q_case_option:
  "prefix (errors s) (errors (findings a)) \<Longrightarrow> (\<And>x. prefix (errors s) (errors (findings (b x)))) \<Longrightarrow>
   prefix (errors s) (errors (findings (case opt of None \<Rightarrow> a | Some x \<Rightarrow> b x)))"
  by (cases opt) simp_all

lemma q_andThen:
  "prefix (errors s) (errors (findings r)) \<Longrightarrow>
   (\<And>t. prefix (errors s) (errors t) \<Longrightarrow> prefix (errors s) (errors (findings (f t)))) \<Longrightarrow>
   prefix (errors s) (errors (findings (andThen r f)))"
  by (cases r) (simp_all add: andThen_def findings_def)

lemma q_forEachRun:
  "prefix (errors s) (errors t) \<Longrightarrow>
   (\<And>x u. prefix (errors s) (errors u) \<Longrightarrow> prefix (errors s) (errors (findings (body x u)))) \<Longrightarrow>
   prefix (errors s) (errors (findings (forEachRun body xs t)))"
proof (induction xs arbitrary: t)
  case Nil
  then show ?case by (simp add: findings_def)
next
  case (Cons x xs)
  show ?case
  proof (cases "body x t")
    case (Finished t')
    then have "prefix (errors s) (errors t')" using Cons.prems(2) [OF Cons.prems(1), of x] by (simp add: findings_def)
    then show ?thesis using Cons.IH [of t'] Cons.prems(2) Finished by simp
  next
    case (Crashed e t')
    then show ?thesis using Cons.prems(2) [OF Cons.prems(1), of x] by simp
  qed
qed

lemma let_data:
  "\<And>(a :: string) f. Let a f = f a"
  "\<And>(a :: nat) f. Let a f = f a"
  "\<And>(a :: string list) f. Let a f = f a"
  "\<And>(a :: jsCategory) f. Let a f = f a"
  "\<And>(a :: jsObject) f. Let a f = f a"
  "\<And>(a :: jsKeyword) f. Let a f = f a"
  "\<And>(a :: jsMember) f. Let a f = f a"
  by simp_all

lemmas grow_rules = g_pushError g_pushWarning g_if g_Let g_case_option g_fold
  q_Finished q_Crashed q_if q_Let q_case_option q_andThen q_forEachRun

lemma js_validateStructure_grows:
  "prefix (errors s) (errors t) \<Longrightarrow> prefix (errors s) (errors (js_validateStructure d t))"
  unfolding js_validateStructure_def by (intro grow_rules | assumption)+

lemma js_checkCategory_grows:
  "prefix (errors s) (errors t) \<Longrightarrow> prefix (errors s) (errors (js_checkCategory entry t))"
  unfolding js_checkCategory_def let_data by (intro grow_rules | assumption)+

lemma js_validateCategories_grows:
  "prefix (errors s) (errors t) \<Longrightarrow> prefix (errors s) (errors (findings (js_validateCategories d t)))"
  unfolding js_validateCategories_def by (intro grow_rules js_checkCategory_grows | assumption)+

lemma js_checkMember_grows:
  "prefix (errors s) (errors t) \<Longrightarrow> prefix (errors s) (errors (js_checkMember a b c entry t))"
  unfolding js_checkMember_def let_data by (intro grow_rules | assumption)+

lemma js_checkStaticMethod_grows:
  "prefix (errors s) (errors t) \<Longrightarrow> prefix (errors s) (errors (js_checkStaticMethod a entry t))"
  unfolding js_checkStaticMethod_def let_data by (intro grow_rules js_checkMember_grows | assumption)+

lemma js_checkObject_grows:
  "prefix (errors s) (errors t) \<Longrightarrow> prefix (errors s) (errors (findings (js_checkObject d entry t)))"
  unfolding js_checkObject_def let_data
  by (intro grow_rules js_checkMember_grows js_checkStaticMethod_grows | assumption)+

lemma js_validateObjects_grows:
  "prefix (errors s) (errors t) \<Longrightarrow> prefix (errors s) (errors (findings (js_validateObjects d t)))"
  unfolding js_validateObjects_def by (intro grow_rules js_checkObject_grows | assumption)+

lemma js_checkAttribute_grows:
  "prefix (errors s) (errors t) \<Longrightarrow> prefix (errors s) (errors (js_checkAttribute a entry t))"
  unfolding js_checkAttribute_def let_data by (intro grow_rules | assumption)+

lemma js_checkKeyword_grows:
  "prefix (errors s) (errors t) \<Longrightarrow> prefix (errors s) (errors (findings (js_checkKeyword d entry t)))"
  unfolding js_checkKeyword_def let_data by (intro grow_rules js_checkAttribute_grows | assumption)+

lemma js_validateKeywords_grows:
  "prefix (errors s) (errors t) \<Longrightarrow> prefix (errors s) (errors (findings (js_validateKeywords d t)))"
  unfolding js_validateKeywords_def by (intro grow_rules js_checkKeyword_grows | assumption)+

lemma js_validateMetadata_grows:
  "prefix (errors s) (errors t) \<Longrightarrow> prefix (errors s) (errors (findings (js_validateMetadata rt d t)))"
  unfolding js_validateMetadata_def let_data prod.case
  by (intro grow_rules | assumption)+

lemma js_checkReferences_grows:
  "prefix (errors s) (errors t) \<Longrightarrow> prefix (errors s) (errors (findings (js_checkReferences d entry t)))"
  unfolding js_checkReferences_def let_data
  by (intro grow_rules | assumption)+

lemma js_checkDuplicates_grows:
  "prefix (errors s) (errors t) \<Longrightarrow> prefix (errors s) (errors (js_checkDuplicates entry t))"
  unfolding js_checkDuplicates_def let_data by (intro grow_rules | assumption)+

lemma js_checkEmpty_grows:
  "prefix (errors s) (errors t) \<Longrightarrow> prefix (errors s) (errors (js_checkEmpty entry t))"
  unfolding js_checkEmpty_def let_data by (intro grow_rules | assumption)+

lemma js_validateConsistency_grows:
  "prefix (errors s) (errors t) \<Longrightarrow> prefix (errors s) (errors (findings (js_validateConsistency d t)))"
  unfolding js_validateConsistency_def
  by (intro grow_rules js_checkReferences_grows js_checkDuplicates_grows js_checkEmpty_grows
      | assumption)+

lemma js_runChecks_grows:
  "prefix (errors (js_validateStructure d \<lparr>errors = [], warnings = []\<rparr>))
          (errors (findings (js_runChecks rt d)))"
  unfolding js_runChecks_def
  by (intro grow_rules js_validateCategories_grows js_validateObjects_grows
        js_validateKeywords_grows js_validateMetadata_grows js_validateConsistency_grows
        prefix_order.refl | assumption)+

lemma js_validateStructure_missing:
  assumes "jd_categories d = None \<or> jd_objects d = None \<or> jd_keywords d = None \<or>
           jd_metadata d = None"
  shows "errors (js_validateStructure d \<lparr>errors = [], warnings = []\<rparr>) \<noteq> []"
  using assms
  by (auto simp add: js_validateStructure_def Let_def errors_fold_pushError
        errors_if_pushError js_dataField_def)

lemma js_finished_sections:
  assumes "js_runChecks rt d = Finished t" "errors t = []"
  shows "js_reportResults d t = Passed"
proof (cases "jd_categories d = None \<or> jd_objects d = None \<or> jd_keywords d = None \<or>
              jd_metadata d = None")
  case True
  have "errors (js_validateStructure d \<lparr>errors = [], warnings = []\<rparr>) \<noteq> []"
    by (rule js_validateStructure_missing [OF True])
  then have "errors (findings (js_runChecks rt d)) \<noteq> []"
    using js_runChecks_grows [of d rt] by auto
  then show ?thesis using assms by (simp add: findings_def)
next
  case False
  then show ?thesis using assms(2) by (auto simp add: js_reportResults_def)
qed

lemma exGood_run:
  "js_runChecks exRuntime exGood
     = Finished \<lparr>errors = [], warnings = [''Version should follow semantic versioning: 1.0.0'']\<rparr>"
  by code_simp

lemma exWarned_run:
  "css_runChecks exRuntime exWarned
     = Finished \<lparr>errors = [], warnings = [''Property count mismatch: 2 vs 1'']\<rparr>"
  by code_simp

text \<open>
  Claim C1, as amended. The JavaScript script reports a dataset valid exactly
  when all of its rule groups have run to their end and the list of errors is
  then empty; \<open>validateCSSData\<close> returns \<open>true\<close> on a file that parses exactly
  when its checks have run to their end and the list of errors is then empty. The
  warnings have no part in either result: \<open>reportResults\<close> gives the same outcome
  whatever the list of warnings is.
\<close>

theorem valid_iff_finished_without_errors:
  "(js_validate rt d = Passed) = (\<exists>s. js_runChecks rt d = Finished s \<and> errors s = []) \<and>
   validateCSSData rt (Some c) = (\<exists>s. css_runChecks rt c = Finished s \<and> errors s = []) \<and>
   js_reportResults d (s\<lparr>warnings := w\<rparr>) = js_reportResults d s"
proof (intro conjI)
  show "(js_validate rt d = Passed) = (\<exists>s. js_runChecks rt d = Finished s \<and> errors s = [])"
  proof (cases "js_runChecks rt d")
    case (Finished t)
    show ?thesis
    proof (cases "errors t = []")
      case True
      then show ?thesis using Finished js_finished_sections [OF Finished True]
        by (simp add: js_validate_def)
    next
      case False
      then show ?thesis using Finished
        by (simp add: js_validate_def js_reportResults_def split: option.splits)
    qed
  next
    case (Crashed e t)
    then show ?thesis by (simp add: js_validate_def)
  qed
  show "validateCSSData rt (Some c) = (\<exists>s. css_runChecks rt c = Finished s \<and> errors s = [])"
    by (cases "css_runChecks rt c") (simp_all add: validateCSSData_def)
  show "js_reportResults d (s\<lparr>warnings := w\<rparr>) = js_reportResults d s"
    by (simp add: js_reportResults_def)
qed

theorem valid_iff_finished_without_errors_witness:
  "js_validate exRuntime exGood = Passed \<and>
   warnings (findings (js_runChecks exRuntime exGood))
     = [''Version should follow semantic versioning: 1.0.0''] \<and>
   validateCSSData exRuntime (Some exWarned) \<and>
   warnings (findings (css_runChecks exRuntime exWarned)) = [''Property count mismatch: 2 vs 1'']"
  using valid_iff_finished_without_errors [of exRuntime exGood exWarned]
  by (simp add: exGood_run exWarned_run findings_def)

text \<open>
  The claim as stated makes the result \<open>true\<close> whenever the list of errors is
  empty. A run that an exception cuts short is reported not valid, and the list
  may well be empty then: in the file below every section is there and every
  count is right, but the group \<open>lengths\<close> of the types is \<open>null\<close>; no error is
  recorded, \<open>Object.keys(types)\<close> throws, and the \<open>catch\<close> returns \<open>false\<close>.
\<close>

theorem null_group_reported_invalid:
  "css_runChecks exRuntime exNullGroup = Crashed TypeError \<lparr>errors = [], warnings = []\<rparr> \<and>
   validateCSSData exRuntime (Some exNullGroup) = False"
  by code_simp

end
